theory Spec2Isabelle
  imports Complex_Main "HOL-Library.Multiset"
begin

section \<open>The backtest engine of nodes/python/BacktestNode.py\<close>

text \<open>
  The engine of \<^verbatim>\<open>BacktestNode\<close> is embedded function by function, every raise of the
  source being an error value of the model. The rows that \<^verbatim>\<open>iterrows\<close> yields hold
  a timestamp beside the numbers, so their values are Python floats: a division by
  zero raises ZeroDivisionError, and a power raises OverflowError or yields a complex
  number.

  Python floats are embedded as \<^typ>\<open>real\<close>. The model has the source's operations in
  the source's order and association, without the rounding of doubles and without
  their infinities: a real above \<open>max_double\<close> stands where the double is inf. The
  properties below are stated on the operations as the source applies them, or are
  conditional on the result of a run. The example runs are chosen so that every
  number of their states, and of their results but annual_return, is one that a
  double holds exactly.

  A pandas timestamp is embedded as its integer value; where the source stores
  \<^verbatim>\<open>str(timestamp)\<close> the model stores the timestamp itself. Text written with
  \<^verbatim>\<open>print\<close> by the engine is embedded as a list of events. A signal is a number
  (\<^verbatim>\<open>fillna(0)\<close> has replaced the missing ones). The statistic \<^verbatim>\<open>sharpe_ratio\<close> is
  computed by pandas and numpy, which raise nothing here; it is not embedded.
\<close>

subsection \<open>Data\<close>

type_synonym timestamp = int

datatype error =
  ValueError string
  | TypeError
  | IndexError
  | ZeroDivisionError
  | OverflowError
  | ValidationError
  | RuntimeError error

text \<open>\<^verbatim>\<open>class BacktestParams(BaseModel)\<close>\<close>

record BacktestParams =
  initial_capital :: real
  commission :: real
  slippage :: real
  position_size :: real
  max_positions :: int

text \<open>The three field validators of \<^verbatim>\<open>BacktestParams\<close>, run by the constructor.\<close>

definition validate_params :: "BacktestParams \<Rightarrow> error + BacktestParams" where
  "validate_params p =
     (if initial_capital p \<le> 0 then Inl (ValueError ''Initial capital must be positive'')
      else if commission p < 0 then Inl (ValueError ''Commission and slippage must be non-negative'')
      else if slippage p < 0 then Inl (ValueError ''Commission and slippage must be non-negative'')
      else if position_size p \<le> 0 \<or> position_size p > 1
        then Inl (ValueError ''Position size must be between 0 and 1'')
      else Inr p)"

text \<open>One row of the data frame: the columns the loop reads.\<close>

record Row =
  timestamp :: timestamp
  open_price :: real
  high_price :: real
  low_price :: real
  close_price :: real
  volume :: real
  signal :: real

text \<open>\<^verbatim>\<open>class Trade(BaseModel)\<close>, with its eleven declared fields.\<close>

record Trade =
  entry_time :: timestamp
  exit_time :: "timestamp option"
  entry_price :: real
  exit_price :: "real option"
  quantity :: real
  side :: string
  pnl :: "real option"
  return_pct :: "real option"
  commission_paid :: real
  slippage_cost :: real
  status :: string

text \<open>A point of the equity curve: the dict with keys timestamp, equity, drawdown, position.\<close>

record EquityPoint =
  ep_timestamp :: timestamp
  equity :: real
  drawdown :: real
  position :: string

text \<open>The two \<^verbatim>\<open>print\<close> calls of the engine, with the values they format.\<close>

datatype event =
  EnteredLong real real
  | ClosedPosition real real string

text \<open>The mutable attributes of a \<^verbatim>\<open>BacktestNode\<close>, and what it has printed.\<close>

record Engine =
  capital :: real
  current_position :: "Trade option"
  trades :: "Trade list"
  equity_curve :: "EquityPoint list"
  printed :: "event list"

text \<open>\<^verbatim>\<open>class BacktestResults(BaseModel)\<close> without sharpe_ratio.\<close>

record BacktestResults =
  total_return :: real
  annual_return :: real
  max_drawdown :: real
  max_drawdown_duration :: nat
  num_trades :: nat
  win_rate :: real
  profit_factor :: real
  avg_trade_return :: real
  res_trades :: "Trade list"
  res_equity_curve :: "EquityPoint list"
  final_capital :: real

text \<open>Values of a dumped model, and \<^verbatim>\<open>trade.model_dump()\<close>: one entry per declared field.\<close>

datatype pyval =
  PStr string
  | PFloat real
  | PTime timestamp
  | PNone

definition opt_float :: "real option \<Rightarrow> pyval" where
  "opt_float v = (case v of None \<Rightarrow> PNone | Some x \<Rightarrow> PFloat x)"

definition opt_time :: "timestamp option \<Rightarrow> pyval" where
  "opt_time v = (case v of None \<Rightarrow> PNone | Some x \<Rightarrow> PTime x)"

definition model_dump :: "Trade \<Rightarrow> (string \<times> pyval) list" where
  "model_dump t =
     [(''entry_time'', PTime (entry_time t)),
      (''exit_time'', opt_time (exit_time t)),
      (''entry_price'', PFloat (entry_price t)),
      (''exit_price'', opt_float (exit_price t)),
      (''quantity'', PFloat (quantity t)),
      (''side'', PStr (side t)),
      (''pnl'', opt_float (pnl t)),
      (''return_pct'', opt_float (return_pct t)),
      (''commission_paid'', PFloat (commission_paid t)),
      (''slippage_cost'', PFloat (slippage_cost t)),
      (''status'', PStr (status t))]"

subsection \<open>The simulation\<close>

text \<open>\<^verbatim>\<open>_calculate_current_equity\<close>\<close>

definition calculate_current_equity :: "Engine \<Rightarrow> Row \<Rightarrow> real" where
  "calculate_current_equity st row =
     (case current_position st of
        None \<Rightarrow> capital st
      | Some pos \<Rightarrow>
          (let current_price = close_price row;
               unrealized_pnl = (current_price - entry_price pos) * quantity pos;
               unrealized_pnl' = (if side pos = ''short'' then - unrealized_pnl else unrealized_pnl)
           in capital st + unrealized_pnl'))"

text \<open>\<^verbatim>\<open>_calculate_current_drawdown\<close>; the division raises when the peak is 0.\<close>

definition calculate_current_drawdown :: "Engine \<Rightarrow> real \<Rightarrow> error + real" where
  "calculate_current_drawdown st current_equity =
     (if equity_curve st = [] then Inr 0
      else (let peak_equity = Max (set (map equity (equity_curve st) @ [current_equity]))
            in if peak_equity = 0 then Inl ZeroDivisionError
               else Inr ((peak_equity - current_equity) / peak_equity)))"

text \<open>
  \<^verbatim>\<open>_enter_long_position\<close>; the division by the price raises when the price is 0,
  before anything is assigned.
\<close>

definition enter_long_position ::
    "BacktestParams \<Rightarrow> timestamp \<Rightarrow> real \<Rightarrow> Engine \<Rightarrow> error + Engine" where
  "enter_long_position P ts price st =
     (let position_value = capital st * position_size P;
          commission_cost = position_value * commission P
      in if price = 0 then Inl ZeroDivisionError
         else
           (let qty = (position_value - commission_cost) / price
            in Inr (st\<lparr>current_position := Some
                     \<lparr>entry_time = ts, exit_time = None, entry_price = price, exit_price = None,
                      quantity = qty, side = ''long'', pnl = None, return_pct = None,
                      commission_paid = commission_cost,
                      slippage_cost = position_value * slippage P, status = ''open''\<rparr>,
                   capital := capital st - commission_cost,
                   printed := printed st @ [EnteredLong qty price]\<rparr>)))"

text \<open>
  \<^verbatim>\<open>_close_position\<close>; the division for return_pct raises when the entry notional
  \<^verbatim>\<open>entry_price * quantity\<close> is 0, before the position is updated.
\<close>

definition close_position :: "BacktestParams \<Rightarrow> Row \<Rightarrow> string \<Rightarrow> Engine \<Rightarrow> error + Engine" where
  "close_position P row reason st =
     (case current_position st of
        None \<Rightarrow> Inr st
      | Some pos \<Rightarrow>
          (let ts = timestamp row;
               price = close_price row;
               exit_p = (if side pos = ''long'' then price * (1 - slippage P)
                         else price * (1 + slippage P));
               gross = (exit_p - entry_price pos) * quantity pos;
               gross' = (if side pos = ''short'' then - gross else gross);
               exit_value = exit_p * quantity pos;
               exit_commission = exit_value * commission P;
               net_pnl = gross' - exit_commission
           in if entry_price pos * quantity pos = 0 then Inl ZeroDivisionError
              else
                (let ret = net_pnl / (entry_price pos * quantity pos);
                     closed = pos\<lparr>exit_time := Some ts, exit_price := Some exit_p,
                                  pnl := Some net_pnl, return_pct := Some ret,
                                  commission_paid := commission_paid pos + exit_commission,
                                  status := ''closed''\<rparr>
                 in Inr (st\<lparr>capital := capital st + net_pnl,
                           trades := trades st @ [closed],
                           current_position := None,
                           printed := printed st @ [ClosedPosition net_pnl ret reason]\<rparr>))))"

text \<open>\<^verbatim>\<open>_process_signal\<close>\<close>

definition process_signal :: "BacktestParams \<Rightarrow> real \<Rightarrow> Row \<Rightarrow> Engine \<Rightarrow> error + Engine" where
  "process_signal P sig row st =
     (let ts = timestamp row; price = close_price row in
      if sig > 0 then
        (let execution_price = price * (1 + slippage P) in
         case current_position st of
           None \<Rightarrow> enter_long_position P ts execution_price st
         | Some pos \<Rightarrow>
             if side pos = ''short''
             then (case close_position P row ''signal_reversal'' st of
                     Inl e \<Rightarrow> Inl e
                   | Inr st' \<Rightarrow> enter_long_position P ts execution_price st')
             else Inr st)
      else if sig < 0 then
        (case current_position st of
           None \<Rightarrow> Inr st
         | Some pos \<Rightarrow> if side pos = ''long'' then close_position P row ''signal_exit'' st else Inr st)
      else Inr st)"

text \<open>The attributes as \<^verbatim>\<open>_run_backtest_simulation\<close> resets them.\<close>

definition initial_engine :: "BacktestParams \<Rightarrow> Engine" where
  "initial_engine P =
     \<lparr>capital = initial_capital P, current_position = None, trades = [], equity_curve = [],
      printed = []\<rparr>"

text \<open>The body of the loop over the rows.\<close>

definition simulation_step :: "BacktestParams \<Rightarrow> Engine \<Rightarrow> Row \<Rightarrow> error + Engine" where
  "simulation_step P st row =
     (let current_equity = calculate_current_equity st row in
      case calculate_current_drawdown st current_equity of
        Inl e \<Rightarrow> Inl e
      | Inr dd \<Rightarrow>
          (let st1 = st\<lparr>equity_curve := equity_curve st @
                       [\<lparr>ep_timestamp = timestamp row, equity = current_equity, drawdown = dd,
                         position = (case current_position st of None \<Rightarrow> ''flat'' | Some _ \<Rightarrow> ''long'')\<rparr>]\<rparr>
           in if signal row \<noteq> 0 then process_signal P (signal row) row st1 else Inr st1))"

text \<open>The loop over the rows, in their order; it stops at the first raise.\<close>

fun simulate_rows :: "BacktestParams \<Rightarrow> Engine \<Rightarrow> Row list \<Rightarrow> error + Engine" where
  "simulate_rows P st [] = Inr st"
| "simulate_rows P st (row # rest) =
     (case simulation_step P st row of
        Inl e \<Rightarrow> Inl e
      | Inr st' \<Rightarrow> simulate_rows P st' rest)"

definition bar_loop :: "BacktestParams \<Rightarrow> Row list \<Rightarrow> error + Engine" where
  "bar_loop P data = simulate_rows P (initial_engine P) data"

text \<open>
  \<^verbatim>\<open>_run_backtest_simulation\<close>: the loop, then the close of a position that is still
  live, against \<^verbatim>\<open>data.iloc[-1]\<close> (an IndexError on an empty frame).
\<close>

definition run_backtest_simulation :: "BacktestParams \<Rightarrow> Row list \<Rightarrow> error + Engine" where
  "run_backtest_simulation P data =
     (case bar_loop P data of
        Inl e \<Rightarrow> Inl e
      | Inr st \<Rightarrow>
          (case current_position st of
             None \<Rightarrow> Inr st
           | Some _ \<Rightarrow>
               (case data of
                  [] \<Rightarrow> Inl IndexError
                | _ # _ \<Rightarrow> close_position P (last data) ''end_of_period'' st)))"

subsection \<open>The metrics\<close>

text \<open>
  The largest double, and the power \<^verbatim>\<open>x ** y\<close> of two Python floats: a
  ZeroDivisionError for 0 to a negative power, a complex number for a negative base
  with a fractional exponent, an OverflowError when the result is beyond the doubles.
\<close>

definition max_double :: real where
  "max_double = 2 ^ 1024 - 2 ^ 971"

datatype pynum =
  PyFloat real
  | PyComplex

definition float_pow :: "real \<Rightarrow> real \<Rightarrow> error + pynum" where
  "float_pow x y =
     (if x = 0 \<and> y < 0 then Inl ZeroDivisionError
      else if x < 0 \<and> y \<noteq> of_int \<lfloor>y\<rfloor> then Inr PyComplex
      else
        (let r = (if y = 0 then 1
                  else if x = 0 then 0
                  else if 0 < x then x powr y
                  else if even \<lfloor>y\<rfloor> then \<bar>x\<bar> powr y
                  else - (\<bar>x\<bar> powr y))
         in if max_double < \<bar>r\<bar> then Inl OverflowError else Inr (PyFloat r)))"

text \<open>\<^verbatim>\<open>equity_series.expanding().max()\<close>: the maximum of each prefix.\<close>

definition expanding_max :: "real list \<Rightarrow> real list" where
  "expanding_max xs = map (\<lambda>i. Max (set (take (Suc i) xs))) [0..<length xs]"

text \<open>The loop of \<^verbatim>\<open>_calculate_max_drawdown_duration\<close> over the flags.\<close>

fun drawdown_durations :: "nat \<Rightarrow> nat \<Rightarrow> bool list \<Rightarrow> nat" where
  "drawdown_durations max_duration current_duration [] = max_duration"
| "drawdown_durations max_duration current_duration (in_drawdown # rest) =
     (if in_drawdown
      then drawdown_durations (max max_duration (current_duration + 1)) (current_duration + 1) rest
      else drawdown_durations max_duration 0 rest)"

definition calculate_max_drawdown_duration :: "real list \<Rightarrow> nat" where
  "calculate_max_drawdown_duration equity_series =
     (let running_max = expanding_max equity_series;
          is_drawdown = map2 (\<lambda>e m. e < m) equity_series running_max
      in drawdown_durations 0 0 is_drawdown)"

text \<open>The value of an optional float that the comparison \<^verbatim>\<open>t.pnl > 0\<close> reads.\<close>

definition float_of :: "real option \<Rightarrow> real" where
  "float_of v = (case v of None \<Rightarrow> 0 | Some x \<Rightarrow> x)"

text \<open>
  \<^verbatim>\<open>_calculate_performance_metrics\<close>, in the order of the source: the division for
  total_return, the power for annual_return, the pandas statistics (which raise
  nothing; their divisor, the running maximum, is not 0 when the first equity is
  positive), the trade statistics (comparing a \<^verbatim>\<open>None\<close> raises a TypeError;
  \<open>float_of\<close> is read only where that check has passed), and the construction of
  \<^verbatim>\<open>BacktestResults\<close>, which rejects a complex annual_return.
\<close>

definition calculate_performance_metrics ::
    "BacktestParams \<Rightarrow> Engine \<Rightarrow> Row list \<Rightarrow> error + BacktestResults" where
  "calculate_performance_metrics P st data =
     (if equity_curve st = [] then Inl (ValueError ''No equity curve data available'')
      else if initial_capital P = 0 then Inl ZeroDivisionError
      else
        (let final = equity (last (equity_curve st));
             total = (final - initial_capital P) / initial_capital P;
             days = length data
         in case (if days > 0 then float_pow (1 + total) (365 / real days) else Inr (PyFloat 1)) of
              Inl e \<Rightarrow> Inl e
            | Inr raised \<Rightarrow>
                if list_ex (\<lambda>t. pnl t = None \<or> return_pct t = None) (trades st) then Inl TypeError
                else
                  (let equity_series = map equity (equity_curve st);
                       running_max = expanding_max equity_series;
                       drawdown_series = map2 (\<lambda>e m. (e - m) / m) equity_series running_max;
                       max_dd = \<bar>Min (set drawdown_series)\<bar>;
                       drawdown_duration = calculate_max_drawdown_duration equity_series;
                       winning_trades = filter (\<lambda>t. float_of (pnl t) > 0) (trades st);
                       losing_trades = filter (\<lambda>t. float_of (pnl t) \<le> 0) (trades st);
                       total_wins = (if winning_trades \<noteq> []
                          then sum_list (map (\<lambda>t. float_of (pnl t)) winning_trades) else 0);
                       total_losses = (if losing_trades \<noteq> []
                          then \<bar>sum_list (map (\<lambda>t. float_of (pnl t)) losing_trades)\<bar> else 1)
                   in case raised of
                        PyComplex \<Rightarrow> Inl ValidationError
                      | PyFloat p \<Rightarrow>
                          Inr \<lparr>total_return = total,
                               annual_return = (if days > 0 then p - 1 else 0),
                               max_drawdown = max_dd,
                               max_drawdown_duration = drawdown_duration,
                               num_trades = length (trades st),
                               win_rate = (if trades st \<noteq> []
                                  then real (length winning_trades) / real (length (trades st))
                                  else 0),
                               profit_factor = (if trades st \<noteq> []
                                  then (if total_losses > 0 then total_wins / total_losses else 0)
                                  else 0),
                               avg_trade_return = (if trades st \<noteq> []
                                  then sum_list (map (\<lambda>t. float_of (return_pct t)) (trades st))
                                       / real (length (trades st))
                                  else 0),
                               res_trades = trades st,
                               res_equity_curve = equity_curve st,
                               final_capital = final\<rparr>)))"

subsection \<open>The run\<close>

text \<open>
  \<^verbatim>\<open>_merge_signals_and_prices\<close> on the one frame that \<^verbatim>\<open>_extract_input_data\<close> returns
  twice: a copy, sorted with \<^verbatim>\<open>sort_values("timestamp")\<close>. That function of pandas is a
  parameter, \<open>sort_values\<close>: it returns the rows in ascending order of timestamp, and
  its default algorithm fixes no order among rows of equal timestamp.
\<close>

definition sorts_by_timestamp :: "(Row list \<Rightarrow> Row list) \<Rightarrow> bool" where
  "sorts_by_timestamp sort_values \<longleftrightarrow>
     (\<forall>rows. mset (sort_values rows) = mset rows \<and> sorted (map timestamp (sort_values rows)))"

definition merge_signals_and_prices :: "(Row list \<Rightarrow> Row list) \<Rightarrow> Row list \<Rightarrow> Row list" where
  "merge_signals_and_prices sort_values combined = sort_values combined"

text \<open>
  \<^verbatim>\<open>BacktestNode(params).run(inputs)\<close> from the rows of the input frame on: the
  constructor's validation, then, inside the \<^verbatim>\<open>try\<close> of \<^verbatim>\<open>run\<close>, the merge, the
  simulation and the metrics. An exception raised there leaves \<^verbatim>\<open>run\<close> as a
  RuntimeError, with no result.
\<close>

definition run ::
    "(Row list \<Rightarrow> Row list) \<Rightarrow> BacktestParams \<Rightarrow> Row list \<Rightarrow> error + BacktestResults" where
  "run sort_values params rows =
     (case validate_params params of
        Inl e \<Rightarrow> Inl e
      | Inr P \<Rightarrow>
          (let combined_data = merge_signals_and_prices sort_values rows in
           case run_backtest_simulation P combined_data of
             Inl e \<Rightarrow> Inl (RuntimeError e)
           | Inr st \<Rightarrow>
               (case calculate_performance_metrics P st combined_data of
                  Inl e \<Rightarrow> Inl (RuntimeError e)
                | Inr res \<Rightarrow> Inr res)))"

section \<open>Definitions for the properties\<close>

subsection \<open>Invariants of the engine\<close>

text \<open>
  A trade as \<^verbatim>\<open>_close_position\<close> seals a long position: the pnl is the price move times
  the quantity, less the commission on the exit value.
\<close>

definition sealed :: "BacktestParams \<Rightarrow> Trade \<Rightarrow> bool" where
  "sealed P t \<longleftrightarrow>
     side t = ''long'' \<and> status t = ''closed'' \<and> exit_time t \<noteq> None \<and>
     (case exit_price t of
        None \<Rightarrow> False
      | Some x \<Rightarrow>
          pnl t = Some ((x - entry_price t) * quantity t - x * quantity t * commission P) \<and>
          return_pct t = Some (((x - entry_price t) * quantity t - x * quantity t * commission P)
                               / (entry_price t * quantity t)))"

text \<open>The ledger holds sealed trades; the live position, if any, is an open long one.\<close>

definition ledger_ok :: "BacktestParams \<Rightarrow> Engine \<Rightarrow> bool" where
  "ledger_ok P st \<longleftrightarrow>
     list_all (sealed P) (trades st) \<and>
     (case current_position st of None \<Rightarrow> True | Some pos \<Rightarrow> side pos = ''long'' \<and> status pos = ''open'')"

text \<open>The number of trades with status open that the engine holds.\<close>

definition open_positions :: "Engine \<Rightarrow> nat" where
  "open_positions st =
     length (filter (\<lambda>t. status t = ''open'') (trades st)) +
     (case current_position st of None \<Rightarrow> 0 | Some _ \<Rightarrow> 1)"

text \<open>The commission that the close of a trade charged on its exit value.\<close>

definition exit_commission_of :: "BacktestParams \<Rightarrow> Trade \<Rightarrow> real" where
  "exit_commission_of P t = float_of (exit_price t) * quantity t * commission P"

text \<open>
  The capital replayed over a ledger with the engine's own two updates, one trade after
  the other: the entry takes the commission \<^verbatim>\<open>capital * position_size * commission\<close>
  off the capital, the close adds the trade's pnl.
\<close>

definition replay_capital :: "BacktestParams \<Rightarrow> Trade list \<Rightarrow> real" where
  "replay_capital P ts =
     foldl (\<lambda>c t. c - c * position_size P * commission P + float_of (pnl t)) (initial_capital P) ts"

definition accounted :: "BacktestParams \<Rightarrow> Engine \<Rightarrow> bool" where
  "accounted P st \<longleftrightarrow>
     capital st =
       (case current_position st of
          None \<Rightarrow> replay_capital P (trades st)
        | Some _ \<Rightarrow>
            replay_capital P (trades st)
              - replay_capital P (trades st) * position_size P * commission P)"

subsection \<open>The drawdown as the specification words it\<close>

text \<open>
  The running maximum of equity[0..i], the specification's
  \<^verbatim>\<open>abs(min over i of (equity[i] - running_max) / running_max)\<close>, and its per-point
  drawdown \<^verbatim>\<open>(peak(equity[0..i]) - equity[i]) / peak(equity[0..i])\<close>.
\<close>

definition running_max :: "real list \<Rightarrow> nat \<Rightarrow> real" where
  "running_max es i = Max (set (take (Suc i) es))"

definition spec_max_drawdown :: "real list \<Rightarrow> real" where
  "spec_max_drawdown es =
     \<bar>Min ((\<lambda>i. (es ! i - running_max es i) / running_max es i) ` {..<length es})\<bar>"

definition causal_drawdown :: "real list \<Rightarrow> nat \<Rightarrow> real" where
  "causal_drawdown es i = (running_max es i - es ! i) / running_max es i"

definition drawdowns_ok :: "EquityPoint list \<Rightarrow> bool" where
  "drawdowns_ok curve \<longleftrightarrow>
     map drawdown curve = map (causal_drawdown (map equity curve)) [0..<length curve]"

subsection \<open>Example inputs\<close>

text \<open>A row whose four prices are equal, and parameters with a capital of 1024.\<close>

definition bar :: "timestamp \<Rightarrow> real \<Rightarrow> real \<Rightarrow> Row" where
  "bar ts price sig =
     \<lparr>timestamp = ts, open_price = price, high_price = price, low_price = price,
      close_price = price, volume = 1, signal = sig\<rparr>"

definition params_of :: "real \<Rightarrow> real \<Rightarrow> BacktestParams" where
  "params_of c s =
     \<lparr>initial_capital = 1024, commission = c, slippage = s, position_size = 1, max_positions = 1\<rparr>"

text \<open>One row without signal, without fees: nothing is traded.\<close>

definition rows_idle :: "Row list" where
  "rows_idle = [bar 1 1 0]"

definition state_idle :: Engine where
  "state_idle =
     \<lparr>capital = 1024, current_position = None, trades = [],
      equity_curve = [\<lparr>ep_timestamp = 1, equity = 1024, drawdown = 0, position = ''flat''\<rparr>],
      printed = []\<rparr>"

definition results_idle :: BacktestResults where
  "results_idle =
     \<lparr>total_return = 0, annual_return = 0, max_drawdown = 0, max_drawdown_duration = 0,
      num_trades = 0, win_rate = 0, profit_factor = 0, avg_trade_return = 0,
      res_trades = [], res_equity_curve = equity_curve state_idle, final_capital = 1024\<rparr>"

text \<open>A winning round trip, without fees.\<close>

definition rows_win :: "Row list" where
  "rows_win = [bar 1 1 1, bar 2 2 (-1)]"

definition state_win :: Engine where
  "state_win =
     \<lparr>capital = 2048, current_position = None,
      trades =
        [\<lparr>entry_time = 1, exit_time = Some 2, entry_price = 1, exit_price = Some 2,
          quantity = 1024, side = ''long'', pnl = Some 1024, return_pct = Some 1,
          commission_paid = 0, slippage_cost = 0, status = ''closed''\<rparr>],
      equity_curve =
        [\<lparr>ep_timestamp = 1, equity = 1024, drawdown = 0, position = ''flat''\<rparr>,
         \<lparr>ep_timestamp = 2, equity = 2048, drawdown = 0, position = ''long''\<rparr>],
      printed = [EnteredLong 1024 1, ClosedPosition 1024 1 ''signal_exit'']\<rparr>"

definition results_win :: BacktestResults where
  "results_win =
     \<lparr>total_return = 1, annual_return = 2 powr (365 / 2) - 1, max_drawdown = 0,
      max_drawdown_duration = 0, num_trades = 1, win_rate = 1, profit_factor = 1024,
      avg_trade_return = 1,
      res_trades = trades state_win, res_equity_curve = equity_curve state_win,
      final_capital = 2048\<rparr>"

text \<open>The same two rows, the later one first.\<close>

definition rows_unsorted :: "Row list" where
  "rows_unsorted = [bar 2 2 (-1), bar 1 1 1]"

text \<open>The winning round trip, then a round trip at one price.\<close>

definition rows_win_then_even :: "Row list" where
  "rows_win_then_even = [bar 1 1 1, bar 2 2 (-1), bar 3 2 1, bar 4 2 (-1)]"

definition state_win_then_even :: Engine where
  "state_win_then_even =
     \<lparr>capital = 2048, current_position = None,
      trades =
        [\<lparr>entry_time = 1, exit_time = Some 2, entry_price = 1, exit_price = Some 2,
          quantity = 1024, side = ''long'', pnl = Some 1024, return_pct = Some 1,
          commission_paid = 0, slippage_cost = 0, status = ''closed''\<rparr>,
         \<lparr>entry_time = 3, exit_time = Some 4, entry_price = 2, exit_price = Some 2,
          quantity = 1024, side = ''long'', pnl = Some 0, return_pct = Some 0,
          commission_paid = 0, slippage_cost = 0, status = ''closed''\<rparr>],
      equity_curve =
        [\<lparr>ep_timestamp = 1, equity = 1024, drawdown = 0, position = ''flat''\<rparr>,
         \<lparr>ep_timestamp = 2, equity = 2048, drawdown = 0, position = ''long''\<rparr>,
         \<lparr>ep_timestamp = 3, equity = 2048, drawdown = 0, position = ''flat''\<rparr>,
         \<lparr>ep_timestamp = 4, equity = 2048, drawdown = 0, position = ''long''\<rparr>],
      printed =
        [EnteredLong 1024 1, ClosedPosition 1024 1 ''signal_exit'',
         EnteredLong 1024 2, ClosedPosition 0 0 ''signal_exit'']\<rparr>"

definition results_win_then_even :: BacktestResults where
  "results_win_then_even =
     \<lparr>total_return = 1, annual_return = 2 powr (365 / 4) - 1, max_drawdown = 0,
      max_drawdown_duration = 0, num_trades = 2, win_rate = 1 / 2, profit_factor = 0,
      avg_trade_return = 1 / 2,
      res_trades = trades state_win_then_even,
      res_equity_curve = equity_curve state_win_then_even,
      final_capital = 2048\<rparr>"

text \<open>
  One row with a buy signal, at a commission of one half: the engine after the loop
  (\<open>state_long\<close>), after the run, and the results.
\<close>

definition rows_buy_only :: "Row list" where
  "rows_buy_only = [bar 1 1 1]"

definition state_long :: Engine where
  "state_long =
     \<lparr>capital = 512,
      current_position = Some
        \<lparr>entry_time = 1, exit_time = None, entry_price = 1, exit_price = None,
         quantity = 512, side = ''long'', pnl = None, return_pct = None,
         commission_paid = 512, slippage_cost = 0, status = ''open''\<rparr>,
      trades = [],
      equity_curve = [\<lparr>ep_timestamp = 1, equity = 1024, drawdown = 0, position = ''flat''\<rparr>],
      printed = [EnteredLong 512 1]\<rparr>"

definition trade_buy_only :: Trade where
  "trade_buy_only =
     \<lparr>entry_time = 1, exit_time = Some 1, entry_price = 1, exit_price = Some 1,
      quantity = 512, side = ''long'', pnl = Some (- 256), return_pct = Some (- (1 / 2)),
      commission_paid = 768, slippage_cost = 0, status = ''closed''\<rparr>"

definition state_buy_only :: Engine where
  "state_buy_only =
     \<lparr>capital = 256, current_position = None, trades = [trade_buy_only],
      equity_curve = [\<lparr>ep_timestamp = 1, equity = 1024, drawdown = 0, position = ''flat''\<rparr>],
      printed = [EnteredLong 512 1, ClosedPosition (- 256) (- (1 / 2)) ''end_of_period'']\<rparr>"

definition results_buy_only :: BacktestResults where
  "results_buy_only =
     \<lparr>total_return = 0, annual_return = 0, max_drawdown = 0, max_drawdown_duration = 0,
      num_trades = 1, win_rate = 0, profit_factor = 0, avg_trade_return = - (1 / 2),
      res_trades = [trade_buy_only],
      res_equity_curve = [\<lparr>ep_timestamp = 1, equity = 1024, drawdown = 0, position = ''flat''\<rparr>],
      final_capital = 1024\<rparr>"

text \<open>
  A row without signal, a buy, and a last row without signal at four times the price,
  at a commission of one half: the engine after the first two rows, after the loop,
  after the run, and the results.
\<close>

definition rows_buy_late :: "Row list" where
  "rows_buy_late = [bar 1 1 0, bar 2 1 1, bar 3 4 0]"

definition position_late :: Trade where
  "position_late =
     \<lparr>entry_time = 2, exit_time = None, entry_price = 1, exit_price = None,
      quantity = 512, side = ''long'', pnl = None, return_pct = None,
      commission_paid = 512, slippage_cost = 0, status = ''open''\<rparr>"

definition state_late_entered :: Engine where
  "state_late_entered =
     \<lparr>capital = 512, current_position = Some position_late, trades = [],
      equity_curve =
        [\<lparr>ep_timestamp = 1, equity = 1024, drawdown = 0, position = ''flat''\<rparr>,
         \<lparr>ep_timestamp = 2, equity = 1024, drawdown = 0, position = ''flat''\<rparr>],
      printed = [EnteredLong 512 1]\<rparr>"

definition state_late_held :: Engine where
  "state_late_held =
     \<lparr>capital = 512, current_position = Some position_late, trades = [],
      equity_curve =
        [\<lparr>ep_timestamp = 1, equity = 1024, drawdown = 0, position = ''flat''\<rparr>,
         \<lparr>ep_timestamp = 2, equity = 1024, drawdown = 0, position = ''flat''\<rparr>,
         \<lparr>ep_timestamp = 3, equity = 2048, drawdown = 0, position = ''long''\<rparr>],
      printed = [EnteredLong 512 1]\<rparr>"

definition trade_buy_late :: Trade where
  "trade_buy_late =
     \<lparr>entry_time = 2, exit_time = Some 3, entry_price = 1, exit_price = Some 4,
      quantity = 512, side = ''long'', pnl = Some 512, return_pct = Some 1,
      commission_paid = 1536, slippage_cost = 0, status = ''closed''\<rparr>"

definition state_buy_late :: Engine where
  "state_buy_late =
     \<lparr>capital = 1024, current_position = None, trades = [trade_buy_late],
      equity_curve = equity_curve state_late_held,
      printed = [EnteredLong 512 1, ClosedPosition 512 1 ''end_of_period'']\<rparr>"

definition results_buy_late :: BacktestResults where
  "results_buy_late =
     \<lparr>total_return = 1, annual_return = 2 powr (365 / 3) - 1, max_drawdown = 0,
      max_drawdown_duration = 0, num_trades = 1, win_rate = 1, profit_factor = 512,
      avg_trade_return = 1,
      res_trades = [trade_buy_late], res_equity_curve = equity_curve state_late_held,
      final_capital = 2048\<rparr>"

text \<open>
  A buy, then four rows without signal, at a commission of 3/2 and a slippage of 3,
  which the validators accept. With five rows the exponent of annual_return is 73.
\<close>

definition rows_buy_hold :: "Row list" where
  "rows_buy_hold = [bar 1 1 1, bar 2 1 0, bar 3 1 0, bar 4 1 0, bar 5 1 0]"

definition trade_buy_hold :: Trade where
  "trade_buy_hold =
     \<lparr>entry_time = 1, exit_time = Some 5, entry_price = 4, exit_price = Some (- 2),
      quantity = - 128, side = ''long'', pnl = Some 384, return_pct = Some (- (3 / 4)),
      commission_paid = 1920, slippage_cost = 3072, status = ''closed''\<rparr>"

definition curve_buy_hold :: "EquityPoint list" where
  "curve_buy_hold =
     [\<lparr>ep_timestamp = 1, equity = 1024, drawdown = 0, position = ''flat''\<rparr>,
      \<lparr>ep_timestamp = 2, equity = - 128, drawdown = 9 / 8, position = ''long''\<rparr>,
      \<lparr>ep_timestamp = 3, equity = - 128, drawdown = 9 / 8, position = ''long''\<rparr>,
      \<lparr>ep_timestamp = 4, equity = - 128, drawdown = 9 / 8, position = ''long''\<rparr>,
      \<lparr>ep_timestamp = 5, equity = - 128, drawdown = 9 / 8, position = ''long''\<rparr>]"

definition state_hold_live :: Engine where
  "state_hold_live =
     \<lparr>capital = - 512,
      current_position = Some
        \<lparr>entry_time = 1, exit_time = None, entry_price = 4, exit_price = None,
         quantity = - 128, side = ''long'', pnl = None, return_pct = None,
         commission_paid = 1536, slippage_cost = 3072, status = ''open''\<rparr>,
      trades = [], equity_curve = curve_buy_hold,
      printed = [EnteredLong (- 128) 4]\<rparr>"

definition state_buy_hold :: Engine where
  "state_buy_hold =
     \<lparr>capital = - 128, current_position = None, trades = [trade_buy_hold],
      equity_curve = curve_buy_hold,
      printed = [EnteredLong (- 128) 4, ClosedPosition 384 (- (3 / 4)) ''end_of_period'']\<rparr>"

definition results_buy_hold :: BacktestResults where
  "results_buy_hold =
     \<lparr>total_return = - (9 / 8), annual_return = - ((1 / 8) ^ 73) - 1, max_drawdown = 9 / 8,
      max_drawdown_duration = 4, num_trades = 1, win_rate = 1, profit_factor = 384,
      avg_trade_return = - (3 / 4),
      res_trades = [trade_buy_hold], res_equity_curve = curve_buy_hold,
      final_capital = - 128\<rparr>"

text \<open>A position held through a dip of the price, without fees.\<close>

definition rows_dip :: "Row list" where
  "rows_dip = [bar 1 2 1, bar 2 1 0, bar 3 2 (-1)]"

definition results_dip :: BacktestResults where
  "results_dip =
     \<lparr>total_return = 0, annual_return = 0, max_drawdown = 1 / 2, max_drawdown_duration = 1,
      num_trades = 1, win_rate = 0, profit_factor = 0, avg_trade_return = 0,
      res_trades =
        [\<lparr>entry_time = 1, exit_time = Some 3, entry_price = 2, exit_price = Some 2,
          quantity = 512, side = ''long'', pnl = Some 0, return_pct = Some 0,
          commission_paid = 0, slippage_cost = 0, status = ''closed''\<rparr>],
      res_equity_curve =
        [\<lparr>ep_timestamp = 1, equity = 1024, drawdown = 0, position = ''flat''\<rparr>,
         \<lparr>ep_timestamp = 2, equity = 512, drawdown = 1 / 2, position = ''long''\<rparr>,
         \<lparr>ep_timestamp = 3, equity = 1024, drawdown = 0, position = ''long''\<rparr>],
      final_capital = 1024\<rparr>"

text \<open>
  Eight round trips, bought at 1 and sold at 4, at a commission of one half and a
  capital of \<open>2 ^ 1022\<close>: each leaves the capital as it was and has a pnl of half of it.
  \<open>round_trips n\<close> is the first \<open>n\<close> of them.
\<close>

definition params_huge :: BacktestParams where
  "params_huge =
     \<lparr>initial_capital = 2 ^ 1022, commission = 1 / 2, slippage = 0, position_size = 1,
      max_positions = 1\<rparr>"

definition rows_huge :: "Row list" where
  "rows_huge =
     [bar 1 1 1, bar 2 4 (-1), bar 3 1 1, bar 4 4 (-1), bar 5 1 1, bar 6 4 (-1),
      bar 7 1 1, bar 8 4 (-1), bar 9 1 1, bar 10 4 (-1), bar 11 1 1, bar 12 4 (-1),
      bar 13 1 1, bar 14 4 (-1), bar 15 1 1, bar 16 4 (-1)]"

definition round_trips :: "nat \<Rightarrow> Row list" where
  "round_trips n =
     concat (map (\<lambda>i. [bar (2 * int i + 1) 1 1, bar (2 * int i + 2) 4 (-1)]) [0..<n])"

section \<open>Properties\<close>

subsection \<open>The loop\<close>

lemma simulate_rows_append:
  "simulate_rows P st (xs @ ys) =
     (case simulate_rows P st xs of Inl e \<Rightarrow> Inl e | Inr st' \<Rightarrow> simulate_rows P st' ys)"
  by (induction xs arbitrary: st) (simp_all split: sum.splits)

lemma bar_loop_Nil [simp]: "bar_loop P [] = Inr (initial_engine P)"
  by (simp add: bar_loop_def)

lemma bar_loop_snoc:
  "bar_loop P (xs @ [x]) =
     (case bar_loop P xs of Inl e \<Rightarrow> Inl e | Inr s \<Rightarrow> simulation_step P s x)"
  by (simp add: bar_loop_def simulate_rows_append split: sum.splits)

lemma simulate_rows_invariant:
  assumes step: "\<And>s x s'. I s \<Longrightarrow> simulation_step P s x = Inr s' \<Longrightarrow> I s'"
  shows "I st0 \<Longrightarrow> simulate_rows P st0 xs = Inr st \<Longrightarrow> I st"
proof (induction xs arbitrary: st0)
  case Nil
  then show ?case by simp
next
  case (Cons x xs)
  from Cons.prems(2) obtain s' where s': "simulation_step P st0 x = Inr s'"
    and rest: "simulate_rows P s' xs = Inr st"
    by (auto split: sum.splits)
  from step [OF Cons.prems(1) s'] rest show ?case
    by (rule Cons.IH)
qed

lemma bar_loop_induct:
  assumes "I (initial_engine P)"
    and "\<And>s x s'. I s \<Longrightarrow> simulation_step P s x = Inr s' \<Longrightarrow> I s'"
    and "bar_loop P data = Inr st"
  shows "I st"
  using simulate_rows_invariant [of I P, OF assms(2) assms(1)] assms(3)
  by (simp add: bar_loop_def)

text \<open>What each operation that returns leaves alone.\<close>

lemma enter_long_position_Inr:
  assumes "enter_long_position P ts price st = Inr st'"
  shows "trades st' = trades st" and "equity_curve st' = equity_curve st"
    and "capital st' = capital st - capital st * position_size P * commission P"
    and "\<exists>pos. current_position st' = Some pos \<and> side pos = ''long'' \<and> status pos = ''open''"
  using assms by (auto simp: enter_long_position_def Let_def split: if_splits)

lemma close_position_Inr:
  assumes "close_position P row reason st = Inr st'"
  shows "equity_curve st' = equity_curve st" and "current_position st' = None"
  using assms by (auto simp: close_position_def Let_def split: option.splits if_splits)

lemma process_signal_equity_curve:
  "process_signal P sig row st = Inr st' \<Longrightarrow> equity_curve st' = equity_curve st"
  by (auto simp: process_signal_def Let_def enter_long_position_Inr(2) close_position_Inr(1)
      split: option.splits if_splits sum.splits)

text \<open>A step that returns has appended one point, computed on the state it started from.\<close>

lemma simulation_step_equity_curve:
  assumes "simulation_step P st row = Inr st'"
  shows "\<exists>dd. calculate_current_drawdown st (calculate_current_equity st row) = Inr dd \<and>
           equity_curve st' =
             equity_curve st @
               [\<lparr>ep_timestamp = timestamp row, equity = calculate_current_equity st row,
                 drawdown = dd,
                 position = (case current_position st of None \<Rightarrow> ''flat'' | Some _ \<Rightarrow> ''long'')\<rparr>]"
  using assms
  by (auto simp: simulation_step_def Let_def dest!: process_signal_equity_curve
      split: sum.splits if_splits)

text \<open>A step is the signal's processing, or nothing, on the state with the new point.\<close>

lemma simulation_step_cases:
  assumes "simulation_step P st row = Inr st'"
  obtains c where "signal row = 0" and "st' = st\<lparr>equity_curve := c\<rparr>"
  | c where "signal row \<noteq> 0" and "process_signal P (signal row) row (st\<lparr>equity_curve := c\<rparr>) = Inr st'"
  using assms by (auto simp: simulation_step_def Let_def split: sum.splits if_splits)

lemma length_equity_curve:
  "bar_loop P data = Inr st \<Longrightarrow> length (equity_curve st) = length data"
proof (induction data arbitrary: st rule: rev_induct)
  case Nil
  then show ?case by (auto simp: initial_engine_def)
next
  case (snoc x xs)
  from snoc.prems obtain s where s: "bar_loop P xs = Inr s" and x: "simulation_step P s x = Inr st"
    by (auto simp: bar_loop_snoc split: sum.splits)
  from simulation_step_equity_curve [OF x] snoc.IH [OF s] show ?case
    by auto
qed

lemma timestamps_equity_curve:
  "bar_loop P data = Inr st \<Longrightarrow> map ep_timestamp (equity_curve st) = map timestamp data"
proof (induction data arbitrary: st rule: rev_induct)
  case Nil
  then show ?case by (auto simp: initial_engine_def)
next
  case (snoc x xs)
  from snoc.prems obtain s where s: "bar_loop P xs = Inr s" and x: "simulation_step P s x = Inr st"
    by (auto simp: bar_loop_snoc split: sum.splits)
  from simulation_step_equity_curve [OF x] snoc.IH [OF s] show ?case
    by auto
qed

text \<open>The simulation is the loop followed by a close, which is nothing when no position is live.\<close>

lemma run_backtest_simulation_Inr:
  assumes "run_backtest_simulation P data = Inr st"
  obtains s where "bar_loop P data = Inr s" and "current_position s = None" and "st = s"
  | s pos where "bar_loop P data = Inr s" and "current_position s = Some pos" and "data \<noteq> []"
      and "close_position P (last data) ''end_of_period'' s = Inr st"
  using assms
  by (auto simp: run_backtest_simulation_def split: sum.splits option.splits list.splits)

lemma equity_curve_simulation:
  assumes "run_backtest_simulation P data = Inr st"
  shows "\<exists>s. bar_loop P data = Inr s \<and> equity_curve st = equity_curve s"
  using assms by (rule run_backtest_simulation_Inr) (auto simp: close_position_Inr(1))

subsection \<open>The ledger\<close>

lemma ledger_ok_initial: "ledger_ok P (initial_engine P)"
  by (simp add: ledger_ok_def initial_engine_def)

lemma ledger_ok_enter:
  "list_all (sealed P) (trades st) \<Longrightarrow> enter_long_position P ts price st = Inr st' \<Longrightarrow>
   ledger_ok P st'"
  by (auto simp: ledger_ok_def enter_long_position_def Let_def split: if_splits)

lemma ledger_ok_close:
  "ledger_ok P st \<Longrightarrow> close_position P row reason st = Inr st' \<Longrightarrow> ledger_ok P st'"
  by (auto simp: ledger_ok_def close_position_def Let_def sealed_def
      split: option.splits if_splits)

lemma ledger_ok_process_signal:
  assumes "ledger_ok P st" and "process_signal P sig row st = Inr st'"
  shows "ledger_ok P st'"
proof -
  have l: "list_all (sealed P) (trades st)"
    using assms(1) by (simp add: ledger_ok_def)
  have l': "list_all (sealed P) (trades s)" if "close_position P row reason st = Inr s" for reason s
    using ledger_ok_close [OF assms(1) that] by (simp add: ledger_ok_def)
  show ?thesis
    using assms
    by (auto simp: process_signal_def Let_def split: option.splits if_splits sum.splits
        intro: ledger_ok_enter [OF l] ledger_ok_close ledger_ok_enter [OF l'])
qed

lemma ledger_ok_step:
  assumes "ledger_ok P st" and "simulation_step P st row = Inr st'"
  shows "ledger_ok P st'"
proof -
  have "ledger_ok P (st\<lparr>equity_curve := c\<rparr>)" for c
    using assms(1) by (simp add: ledger_ok_def)
  with assms(2) show ?thesis
    by (elim simulation_step_cases) (auto intro: ledger_ok_process_signal)
qed

lemma ledger_ok_bar_loop: "bar_loop P data = Inr st \<Longrightarrow> ledger_ok P st"
  by (rule bar_loop_induct [where I = "ledger_ok P"]) (auto intro: ledger_ok_initial ledger_ok_step)

lemma ledger_ok_simulation:
  assumes "run_backtest_simulation P data = Inr st"
  shows "ledger_ok P st \<and> current_position st = None"
  using assms
  by (rule run_backtest_simulation_Inr)
     (auto dest: ledger_ok_bar_loop ledger_ok_close close_position_Inr(2))

subsection \<open>Evaluating a run\<close>

text \<open>The powers that the example runs take, and the rules that unfold a run.\<close>

lemma max_double_bounds: "1 \<le> max_double" "2 ^ 1023 \<le> max_double" "0 < max_double"
  by (simp_all add: max_double_def)

lemma float_pow_one: "float_pow 1 y = Inr (PyFloat 1)"
  using max_double_bounds(1) by (simp add: float_pow_def)

lemma float_pow_two:
  assumes "0 < y" and "y \<le> 1023"
  shows "float_pow 2 y = Inr (PyFloat (2 powr y))"
proof -
  have "(2::real) powr y \<le> 2 powr 1023"
    using assms(2) by (intro powr_mono) simp_all
  also have "\<dots> = 2 ^ 1023"
    by (simp add: powr_realpow [symmetric])
  finally have "\<bar>(2::real) powr y\<bar> \<le> max_double"
    using max_double_bounds(2) by simp
  then show ?thesis
    using assms(1) by (simp add: float_pow_def)
qed

lemma float_pow_eighth: "float_pow (- (1 / 8)) 73 = Inr (PyFloat (- ((1 / 8) powr 73)))"
proof -
  have "((1::real) / 8) powr 73 \<le> (1 / 8) powr 0"
    by (intro powr_mono') simp_all
  then have "\<bar>- (((1::real) / 8) powr 73)\<bar> \<le> max_double"
    using max_double_bounds(1) by simp
  then show ?thesis
    by (simp add: float_pow_def)
qed

lemmas engine_defs =
  bar_loop_def initial_engine_def simulation_step_def process_signal_def
  enter_long_position_def close_position_def calculate_current_equity_def
  calculate_current_drawdown_def run_backtest_simulation_def Let_def bar_def params_of_def

lemmas metrics_defs =
  run_def validate_params_def merge_signals_and_prices_def calculate_performance_metrics_def
  expanding_max_def calculate_max_drawdown_duration_def float_of_def
  float_pow_one float_pow_two float_pow_eighth
  upt_rec [of _ "numeral _"] upt_rec [of _ "Suc _"] take_Suc_conv_app_nth

subsection \<open>The example runs, evaluated\<close>

lemma sorts_by_timestamp_sort_key: "sorts_by_timestamp (sort_key timestamp)"
  by (simp add: sorts_by_timestamp_def)

lemma simulation_win: "run_backtest_simulation (params_of 0 0) rows_win = Inr state_win"
  by (simp add: engine_defs rows_win_def state_win_def)

lemma metrics_win:
  "calculate_performance_metrics (params_of 0 0) state_win rows_win = Inr results_win"
  by (simp add: metrics_defs state_win_def results_win_def params_of_def rows_win_def)

lemma run_unsorted: "run (sort_key timestamp) (params_of 0 0) rows_unsorted = Inr results_win"
  by (simp add: engine_defs metrics_defs rows_unsorted_def results_win_def state_win_def)

lemma simulation_win_then_even:
  "run_backtest_simulation (params_of 0 0) rows_win_then_even = Inr state_win_then_even"
  by (simp add: engine_defs rows_win_then_even_def state_win_then_even_def)

lemma metrics_win_then_even:
  "calculate_performance_metrics (params_of 0 0) state_win_then_even rows_win_then_even
     = Inr results_win_then_even"
  by (simp add: metrics_defs state_win_then_even_def results_win_then_even_def params_of_def
      rows_win_then_even_def)

lemma simulation_idle: "run_backtest_simulation (params_of 0 0) rows_idle = Inr state_idle"
  by (simp add: engine_defs rows_idle_def state_idle_def)

lemma metrics_idle:
  "calculate_performance_metrics (params_of 0 0) state_idle rows_idle = Inr results_idle"
  by (simp add: metrics_defs state_idle_def results_idle_def params_of_def rows_idle_def)

lemma bar_loop_buy_only: "bar_loop (params_of (1/2) 0) rows_buy_only = Inr state_long"
  by (simp add: engine_defs rows_buy_only_def state_long_def)

lemma simulation_buy_only:
  "run_backtest_simulation (params_of (1/2) 0) rows_buy_only = Inr state_buy_only"
  by (simp add: engine_defs rows_buy_only_def state_buy_only_def trade_buy_only_def)

lemma metrics_buy_only:
  "calculate_performance_metrics (params_of (1/2) 0) state_buy_only rows_buy_only
     = Inr results_buy_only"
  by (simp add: metrics_defs state_buy_only_def results_buy_only_def trade_buy_only_def
      params_of_def rows_buy_only_def)

lemma run_buy_only:
  "run (sort_key timestamp) (params_of (1/2) 0) rows_buy_only = Inr results_buy_only"
  by (simp add: engine_defs metrics_defs rows_buy_only_def results_buy_only_def trade_buy_only_def)

lemma bar_loop_late_entered:
  "bar_loop (params_of (1/2) 0) (butlast rows_buy_late) = Inr state_late_entered"
  by (simp add: engine_defs rows_buy_late_def state_late_entered_def position_late_def)

lemma bar_loop_late_held: "bar_loop (params_of (1/2) 0) rows_buy_late = Inr state_late_held"
  by (simp add: engine_defs rows_buy_late_def state_late_held_def position_late_def)

lemma step_late_held:
  "simulation_step (params_of (1/2) 0) state_late_entered (bar 3 4 0) = Inr state_late_held"
  by (simp add: engine_defs state_late_entered_def state_late_held_def position_late_def)

lemma simulation_buy_late:
  "run_backtest_simulation (params_of (1/2) 0) rows_buy_late = Inr state_buy_late"
  by (simp add: engine_defs rows_buy_late_def state_buy_late_def state_late_held_def
      trade_buy_late_def)

lemma metrics_buy_late:
  "calculate_performance_metrics (params_of (1/2) 0) state_buy_late rows_buy_late
     = Inr results_buy_late"
  by (simp add: metrics_defs state_buy_late_def results_buy_late_def state_late_held_def
      trade_buy_late_def params_of_def rows_buy_late_def)

lemma bar_loop_buy_hold: "bar_loop (params_of (3/2) 3) rows_buy_hold = Inr state_hold_live"
  by (simp add: engine_defs rows_buy_hold_def state_hold_live_def curve_buy_hold_def)

lemma simulation_buy_hold:
  "run_backtest_simulation (params_of (3/2) 3) rows_buy_hold = Inr state_buy_hold"
  by (simp add: engine_defs rows_buy_hold_def state_buy_hold_def trade_buy_hold_def
      curve_buy_hold_def)

lemma run_buy_hold:
  "run (sort_key timestamp) (params_of (3/2) 3) rows_buy_hold = Inr results_buy_hold"
  by (simp add: engine_defs metrics_defs rows_buy_hold_def results_buy_hold_def
      trade_buy_hold_def curve_buy_hold_def)

lemma run_dip: "run (sort_key timestamp) (params_of 0 0) rows_dip = Inr results_dip"
  by (simp add: engine_defs metrics_defs rows_dip_def results_dip_def)

subsection \<open>Capital and the ledger (C1, C2)\<close>

lemma replay_capital_snoc:
  "replay_capital P (ts @ [t]) =
     replay_capital P ts - replay_capital P ts * position_size P * commission P + float_of (pnl t)"
  by (simp add: replay_capital_def)

lemma accounted_initial: "accounted P (initial_engine P)"
  by (simp add: accounted_def initial_engine_def replay_capital_def)

lemma accounted_enter:
  "accounted P st \<Longrightarrow> current_position st = None \<Longrightarrow>
   enter_long_position P ts price st = Inr st' \<Longrightarrow> accounted P st'"
  by (auto simp: accounted_def enter_long_position_def Let_def split: if_splits)

lemma accounted_close:
  "accounted P st \<Longrightarrow> close_position P row reason st = Inr st' \<Longrightarrow> accounted P st'"
  by (auto simp: accounted_def close_position_def Let_def replay_capital_snoc float_of_def
      split: option.splits if_splits)

lemma accounted_process_signal:
  assumes "accounted P st" and "process_signal P sig row st = Inr st'"
  shows "accounted P st'"
  using assms
  by (auto simp: process_signal_def Let_def split: option.splits if_splits sum.splits
      intro: accounted_enter accounted_close
      dest: close_position_Inr(2))

lemma accounted_step:
  assumes "accounted P st" and "simulation_step P st row = Inr st'"
  shows "accounted P st'"
proof -
  have "accounted P (st\<lparr>equity_curve := c\<rparr>)" for c
    using assms(1) by (simp add: accounted_def split: option.splits)
  with assms(2) show ?thesis
    by (elim simulation_step_cases) (auto intro: accounted_process_signal)
qed

lemma accounted_bar_loop: "bar_loop P data = Inr st \<Longrightarrow> accounted P st"
  by (rule bar_loop_induct [where I = "accounted P"]) (auto intro: accounted_initial accounted_step)

lemma accounted_simulation:
  assumes "run_backtest_simulation P data = Inr st"
  shows "capital st = replay_capital P (trades st)"
proof -
  from assms have "accounted P st"
    by (rule run_backtest_simulation_Inr) (auto dest: accounted_bar_loop accounted_close)
  with ledger_ok_simulation [OF assms] show ?thesis
    by (simp add: accounted_def)
qed

text \<open>Without commission the entry takes nothing off: the replay adds the pnl one by one.\<close>

lemma replay_capital_no_commission:
  "commission P = 0 \<Longrightarrow>
   replay_capital P ts = foldl (\<lambda>c t. c + float_of (pnl t)) (initial_capital P) ts"
  by (simp add: replay_capital_def)

text \<open>
  Without commission and slippage, the equity recorded for a row is the capital the
  engine has once that row's signal is processed and the position is closed: the
  unrealized pnl and the realized pnl are the same product.
\<close>

lemma last_equity_is_final_capital:
  assumes "commission P = 0" and "slippage P = 0" and "ledger_ok P s"
    and "simulation_step P s r = Inr s1" and "close_position P r reason s1 = Inr st"
  shows "capital st = calculate_current_equity s r"
  using assms
  by (auto simp: simulation_step_def process_signal_def close_position_def
      enter_long_position_def calculate_current_equity_def ledger_ok_def Let_def
      split: option.splits if_splits sum.splits)

lemma final_capital_metrics:
  "calculate_performance_metrics P st data = Inr res \<Longrightarrow>
   equity_curve st \<noteq> [] \<and> final_capital res = equity (last (equity_curve st)) \<and>
   res_trades res = trades st \<and> res_equity_curve res = equity_curve st"
  by (auto simp: calculate_performance_metrics_def Let_def split: if_splits sum.splits pynum.splits)

text \<open>The simulation's last step: the loop on all rows but the last, the last row, and the close.\<close>

lemma simulation_last_row:
  assumes "run_backtest_simulation P (xs @ [r]) = Inr st"
  obtains s s1 where "bar_loop P xs = Inr s" and "simulation_step P s r = Inr s1"
    and "bar_loop P (xs @ [r]) = Inr s1"
    and "close_position P r ''end_of_period'' s1 = Inr st"
proof -
  from assms show ?thesis
  proof (rule run_backtest_simulation_Inr)
    fix s1
    assume l: "bar_loop P (xs @ [r]) = Inr s1" and n: "current_position s1 = None" and e: "st = s1"
    from l obtain s where "bar_loop P xs = Inr s" "simulation_step P s r = Inr s1"
      by (auto simp: bar_loop_snoc split: sum.splits)
    moreover have "close_position P r ''end_of_period'' s1 = Inr st"
      using n e by (simp add: close_position_def)
    ultimately show ?thesis
      using l that by blast
  next
    fix s1 pos
    assume l: "bar_loop P (xs @ [r]) = Inr s1"
      and c: "close_position P (last (xs @ [r])) ''end_of_period'' s1 = Inr st"
    from l obtain s where "bar_loop P xs = Inr s" "simulation_step P s r = Inr s1"
      by (auto simp: bar_loop_snoc split: sum.splits)
    then show ?thesis
      using l c that by simp
  qed
qed

text \<open>
  C1, as the code has it. After every run that completes, the engine's capital is what
  the ledger replays to: from the initial capital on, each trade in its turn takes off
  the entry commission capital * position_size * commission and adds its pnl. When the
  metrics return, the final_capital of the results is the equity of the last point of
  the equity curve; and when commission and slippage are both 0, it is the initial
  capital with the pnl of the returned trades added one by one.
\<close>

theorem capital_accounting:
  assumes sim: "run_backtest_simulation P data = Inr st"
  shows "capital st =
           foldl (\<lambda>c t. c - c * position_size P * commission P + float_of (pnl t))
             (initial_capital P) (trades st) \<and>
         (calculate_performance_metrics P st data = Inr res \<longrightarrow>
            final_capital res = equity (last (res_equity_curve res)) \<and>
            (commission P = 0 \<and> slippage P = 0 \<longrightarrow>
               final_capital res =
                 foldl (\<lambda>c t. c + float_of (pnl t)) (initial_capital P) (res_trades res)))"
proof (intro conjI impI)
  show "capital st =
      foldl (\<lambda>c t. c - c * position_size P * commission P + float_of (pnl t))
        (initial_capital P) (trades st)"
    using accounted_simulation [OF sim] by (simp add: replay_capital_def)
next
  assume m: "calculate_performance_metrics P st data = Inr res"
  from final_capital_metrics [OF m] show "final_capital res = equity (last (res_equity_curve res))"
    by simp
next
  assume m: "calculate_performance_metrics P st data = Inr res"
    and "commission P = 0 \<and> slippage P = 0"
  then have c0: "commission P = 0" and s0: "slippage P = 0"
    by simp_all
  from final_capital_metrics [OF m]
  have curve: "equity_curve st \<noteq> []"
    and fin: "final_capital res = equity (last (equity_curve st))"
    and tr: "res_trades res = trades st"
    by simp_all
  from equity_curve_simulation [OF sim] obtain s' where s': "bar_loop P data = Inr s'"
    and eq: "equity_curve st = equity_curve s'"
    by blast
  from curve eq s' have "data \<noteq> []"
    by (auto simp: initial_engine_def)
  then obtain xs r where data: "data = xs @ [r]"
    by (metis rev_exhaust)
  from sim [unfolded data] obtain s s1
    where s: "bar_loop P xs = Inr s" and step: "simulation_step P s r = Inr s1"
      and l: "bar_loop P (xs @ [r]) = Inr s1"
      and close: "close_position P r ''end_of_period'' s1 = Inr st"
    by (rule simulation_last_row)
  have "equity (last (equity_curve st)) = calculate_current_equity s r"
    using simulation_step_equity_curve [OF step] close_position_Inr(1) [OF close] by auto
  also have "\<dots> = capital st"
    using last_equity_is_final_capital [OF c0 s0 ledger_ok_bar_loop [OF s] step close] by simp
  also have "\<dots> = foldl (\<lambda>c t. c + float_of (pnl t)) (initial_capital P) (trades st)"
    using accounted_simulation [OF sim] replay_capital_no_commission [OF c0] by simp
  finally show "final_capital res =
      foldl (\<lambda>c t. c + float_of (pnl t)) (initial_capital P) (res_trades res)"
    using fin tr by simp
qed

text \<open>
  Both parts at work: at a commission of one half the capital 256 is 1024 - 512 - 256,
  and without fees the final_capital 2048 is 1024 + 1024.
\<close>

theorem capital_accounting_witness:
  "run_backtest_simulation (params_of (1/2) 0) rows_buy_only = Inr state_buy_only \<and>
   capital state_buy_only = 1024 - 1024 * 1 * (1 / 2) + (- 256) \<and>
   calculate_performance_metrics (params_of (1/2) 0) state_buy_only rows_buy_only
     = Inr results_buy_only \<and>
   final_capital results_buy_only = equity (last (res_equity_curve results_buy_only)) \<and>
   run_backtest_simulation (params_of 0 0) rows_win = Inr state_win \<and>
   calculate_performance_metrics (params_of 0 0) state_win rows_win = Inr results_win \<and>
   commission (params_of 0 0) = 0 \<and> slippage (params_of 0 0) = 0 \<and>
   final_capital results_win = 1024 + 1024"
  using capital_accounting [OF simulation_buy_only, where res = results_buy_only]
    capital_accounting [OF simulation_win, where res = results_win]
    simulation_buy_only simulation_win metrics_buy_only metrics_win
  by (simp add: state_buy_only_def trade_buy_only_def float_of_def params_of_def
      results_win_def state_win_def results_buy_only_def)

text \<open>
  C1 as stated fails: one row with a buy signal at a commission of one half gives a
  final_capital of 1024, while the initial capital plus the pnl of the one trade is 768.
\<close>

theorem capital_conservation_counterexample:
  "run (sort_key timestamp) (params_of (1/2) 0) rows_buy_only = Inr results_buy_only \<and>
   final_capital results_buy_only = 1024 \<and>
   res_trades results_buy_only = [trade_buy_only] \<and>
   initial_capital (params_of (1/2) 0) + float_of (pnl trade_buy_only) = 768"
  using run_buy_only
  by (simp add: results_buy_only_def trade_buy_only_def params_of_def float_of_def)

text \<open>
  C2, as the code has it. Every trade in the ledger of a run has an exit price, its pnl
  is (exit_price - entry_price) * quantity less the exit commission
  exit_price * quantity * commission (the entry commission is not subtracted), and its
  return_pct is that pnl over entry_price * quantity.
\<close>

theorem pnl_net_of_exit_commission:
  assumes "run_backtest_simulation P data = Inr st" and "t \<in> set (trades st)"
  shows "\<exists>x. exit_price t = Some x \<and>
           pnl t = Some ((x - entry_price t) * quantity t - x * quantity t * commission P) \<and>
           return_pct t = Some (float_of (pnl t) / (entry_price t * quantity t))"
proof -
  from assms(1) have "list_all (sealed P) (trades st)"
    using ledger_ok_simulation by (auto simp: ledger_ok_def)
  with assms(2) have "sealed P t"
    by (simp add: list_all_iff)
  then show ?thesis
    by (auto simp: sealed_def float_of_def split: option.splits)
qed

text \<open>The trade of one row with a buy signal, at a commission of one half.\<close>

theorem pnl_net_of_exit_commission_witness:
  "run_backtest_simulation (params_of (1/2) 0) rows_buy_only = Inr state_buy_only \<and>
   trade_buy_only \<in> set (trades state_buy_only) \<and>
   exit_price trade_buy_only = Some 1 \<and>
   pnl trade_buy_only = Some ((1 - 1) * 512 - 1 * 512 * (1 / 2)) \<and>
   return_pct trade_buy_only = Some (- 256 / (1 * 512))"
  using pnl_net_of_exit_commission [OF simulation_buy_only, of trade_buy_only]
    simulation_buy_only
  by (simp add: state_buy_only_def trade_buy_only_def float_of_def params_of_def)

text \<open>
  C2 as stated fails: the trade of that run paid 512 at entry and 256 at exit, its pnl
  is -256, and the price move less both commissions is -768.
\<close>

theorem pnl_both_commissions_counterexample:
  "run_backtest_simulation (params_of (1/2) 0) rows_buy_only = Inr state_buy_only \<and>
   trades state_buy_only = [trade_buy_only] \<and>
   status trade_buy_only = ''closed'' \<and>
   pnl trade_buy_only = Some (- 256) \<and>
   commission_paid trade_buy_only = 512 + 256 \<and>
   (float_of (exit_price trade_buy_only) - entry_price trade_buy_only) * quantity trade_buy_only
     - 512 - 256 = - 768"
  using simulation_buy_only by (simp add: state_buy_only_def trade_buy_only_def float_of_def)

subsection \<open>The close at the end of the period (C3)\<close>

lemma step_buy_live:
  "0 < signal row \<Longrightarrow> simulation_step P st row = Inr st' \<Longrightarrow> current_position st' \<noteq> None"
  by (auto simp: simulation_step_def process_signal_def Let_def
      dest: enter_long_position_Inr(4)
      split: option.splits if_splits sum.splits)

lemma step_keeps_live:
  "current_position st \<noteq> None \<Longrightarrow> \<not> signal row < 0 \<Longrightarrow>
   simulation_step P st row = Inr st' \<Longrightarrow> current_position st' \<noteq> None"
  by (auto simp: simulation_step_def process_signal_def Let_def
      dest: enter_long_position_Inr(4)
      split: option.splits if_splits sum.splits)

lemma simulate_rows_keeps_live:
  "current_position st \<noteq> None \<Longrightarrow> \<forall>r\<in>set rows. \<not> signal r < 0 \<Longrightarrow>
   simulate_rows P st rows = Inr st' \<Longrightarrow> current_position st' \<noteq> None"
proof (induction rows arbitrary: st)
  case Nil
  then show ?case by simp
next
  case (Cons r rows)
  from Cons.prems(3) obtain s where s: "simulation_step P st r = Inr s"
    and rest: "simulate_rows P s rows = Inr st'"
    by (auto split: sum.splits)
  have "current_position s \<noteq> None"
    using Cons.prems(1,2) s by (intro step_keeps_live [of st r P s]) simp_all
  then show ?case
    using Cons.prems(2) rest by (intro Cons.IH [of s]) simp_all
qed

lemma live_after_last_buy:
  assumes "data = pre @ b # post" and "0 < signal b" and "\<forall>r\<in>set post. \<not> signal r < 0"
    and "bar_loop P data = Inr st"
  shows "current_position st \<noteq> None"
proof -
  from assms(4) obtain s1 s2 where "simulation_step P s1 b = Inr s2"
    and rest: "simulate_rows P s2 post = Inr st"
    by (auto simp: bar_loop_def assms(1) simulate_rows_append split: sum.splits)
  then have "current_position s2 \<noteq> None"
    using step_buy_live [OF assms(2)] by blast
  then show ?thesis
    using assms(3) rest by (rule simulate_rows_keeps_live)
qed

lemma model_dump_keys:
  "map fst (model_dump t) =
     [''entry_time'', ''exit_time'', ''entry_price'', ''exit_price'', ''quantity'', ''side'',
      ''pnl'', ''return_pct'', ''commission_paid'', ''slippage_cost'', ''status'']"
  by (simp add: model_dump_def)

lemma close_long_position:
  assumes "current_position st = Some pos" and "side pos = ''long''"
    and "close_position P row reason st = Inr st'"
  shows "trades st' \<noteq> [] \<and>
         status (last (trades st')) = ''closed'' \<and>
         exit_time (last (trades st')) = Some (timestamp row) \<and>
         exit_price (last (trades st')) = Some (close_price row * (1 - slippage P)) \<and>
         last (printed st') =
           ClosedPosition (float_of (pnl (last (trades st'))))
             (float_of (return_pct (last (trades st')))) reason \<and>
         capital st' = capital st + float_of (pnl (last (trades st'))) \<and>
         pnl (last (trades st')) =
           Some ((close_price row * (1 - slippage P) - entry_price pos) * quantity pos
                 - close_price row * (1 - slippage P) * quantity pos * commission P)"
  using assms by (auto simp: close_position_def Let_def float_of_def split: if_splits)

text \<open>
  C3, as the code has it. When some row has a buy signal and no later row has a sell
  signal, a run that completes has closed the position against the last row: the last
  trade of the ledger is closed, its exit_time is the last row's timestamp and its
  exit_price the last row's close less slippage. A dumped trade has no close_reason
  key; the reason end_of_period is in the message the close prints.
\<close>

theorem end_of_period_close:
  assumes "data = pre @ b # post" and "0 < signal b" and "\<forall>r\<in>set post. \<not> signal r < 0"
    and "run_backtest_simulation P data = Inr st"
  shows "trades st \<noteq> [] \<and>
         status (last (trades st)) = ''closed'' \<and>
         exit_time (last (trades st)) = Some (timestamp (last data)) \<and>
         exit_price (last (trades st)) = Some (close_price (last data) * (1 - slippage P)) \<and>
         ''close_reason'' \<notin> set (map fst (model_dump (last (trades st)))) \<and>
         last (printed st) =
           ClosedPosition (float_of (pnl (last (trades st))))
             (float_of (return_pct (last (trades st)))) ''end_of_period''"
  using assms(4)
proof (rule run_backtest_simulation_Inr)
  fix s
  assume "bar_loop P data = Inr s" and "current_position s = None"
  with live_after_last_buy [OF assms(1-3)] show ?thesis
    by blast
next
  fix s pos
  assume l: "bar_loop P data = Inr s" and pos: "current_position s = Some pos"
    and c: "close_position P (last data) ''end_of_period'' s = Inr st"
  from ledger_ok_bar_loop [OF l] pos have long: "side pos = ''long''"
    by (simp add: ledger_ok_def)
  from close_long_position [OF pos long c] show ?thesis
    by (simp add: model_dump_keys)
qed

text \<open>
  Three rows, the buy on the second: the trade is closed on the third, at its close of 4.
\<close>

theorem end_of_period_close_witness:
  "rows_buy_late = [bar 1 1 0] @ bar 2 1 1 # [bar 3 4 0] \<and> 0 < signal (bar 2 1 1) \<and>
   \<not> signal (bar 3 4 0) < 0 \<and>
   run_backtest_simulation (params_of (1/2) 0) rows_buy_late = Inr state_buy_late \<and>
   status (last (trades state_buy_late)) = ''closed'' \<and>
   exit_time (last (trades state_buy_late)) = Some 3 \<and>
   exit_price (last (trades state_buy_late)) = Some 4 \<and>
   last (printed state_buy_late) = ClosedPosition 512 1 ''end_of_period''"
proof -
  have h1: "rows_buy_late = [bar 1 1 0] @ bar 2 1 1 # [bar 3 4 0]"
    by (simp add: rows_buy_late_def)
  have h2: "0 < signal (bar 2 1 1)"
    by (simp add: bar_def)
  have h3: "\<forall>r\<in>set [bar 3 4 0]. \<not> signal r < 0"
    by (simp add: bar_def)
  from end_of_period_close [OF h1 h2 h3 simulation_buy_late] h1 h2 h3 simulation_buy_late
  show ?thesis
    by (simp add: state_buy_late_def trade_buy_late_def)
qed

text \<open>
  C3 as stated fails: that run ends with a forced close at the last row's timestamp, and
  the dump of its final trade has no entry for close_reason.
\<close>

theorem close_reason_counterexample:
  "run_backtest_simulation (params_of (1/2) 0) rows_buy_late = Inr state_buy_late \<and>
   last (trades state_buy_late) = trade_buy_late \<and>
   exit_time trade_buy_late = Some (timestamp (last rows_buy_late)) \<and>
   map_of (model_dump trade_buy_late) ''close_reason'' = None \<and>
   map_of (model_dump trade_buy_late) ''close_reason'' \<noteq> Some (PStr ''end_of_period'')"
  using simulation_buy_late
  by (simp add: state_buy_late_def model_dump_def trade_buy_late_def rows_buy_late_def bar_def)

subsection \<open>The dispatch on the signal (C4, C6)\<close>

lemma signal_column_unread [simp]:
  "calculate_current_equity st (row\<lparr>signal := s\<rparr>) = calculate_current_equity st row"
  "close_position P (row\<lparr>signal := s\<rparr>) reason st = close_position P row reason st"
  by (simp_all add: calculate_current_equity_def close_position_def split: option.splits)

lemma process_signal_column_unread [simp]:
  "process_signal P sig (row\<lparr>signal := s\<rparr>) st = process_signal P sig row st"
  by (simp add: process_signal_def Let_def split: option.splits)

lemma process_signal_sign:
  "0 < sig \<Longrightarrow> process_signal P sig row st = process_signal P 1 row st"
  "sig < 0 \<Longrightarrow> process_signal P sig row st = process_signal P (- 1) row st"
  by (simp_all add: process_signal_def)

text \<open>
  C4, as the code has it. The engine reads the sign of the signal only: a row with a
  positive signal (0.5, 2) is processed as the same row with signal +1, a row with a
  negative signal as the same row with signal -1. A row with signal 0 does nothing but
  append its equity point, and when that step returns, the capital, the ledger and the
  position are as they were.
\<close>

theorem signal_dispatch_by_sign:
  "(0 < signal row \<longrightarrow> simulation_step P st row = simulation_step P st (row\<lparr>signal := 1\<rparr>)) \<and>
   (signal row < 0 \<longrightarrow> simulation_step P st row = simulation_step P st (row\<lparr>signal := - 1\<rparr>)) \<and>
   (signal row = 0 \<longrightarrow>
      simulation_step P st row =
        (case calculate_current_drawdown st (calculate_current_equity st row) of
           Inl e \<Rightarrow> Inl e
         | Inr dd \<Rightarrow>
             Inr (st\<lparr>equity_curve := equity_curve st @
                   [\<lparr>ep_timestamp = timestamp row, equity = calculate_current_equity st row,
                     drawdown = dd,
                     position = (case current_position st of None \<Rightarrow> ''flat'' | Some _ \<Rightarrow> ''long'')\<rparr>]\<rparr>)) \<and>
      (simulation_step P st row = Inr st' \<longrightarrow>
         capital st' = capital st \<and> trades st' = trades st \<and>
         current_position st' = current_position st))"
proof (intro conjI impI)
  assume "0 < signal row"
  then show "simulation_step P st row = simulation_step P st (row\<lparr>signal := 1\<rparr>)"
    using process_signal_sign(1) [of "signal row" P row]
    by (simp add: simulation_step_def Let_def split: sum.splits)
next
  assume "signal row < 0"
  then show "simulation_step P st row = simulation_step P st (row\<lparr>signal := - 1\<rparr>)"
    using process_signal_sign(2) [of "signal row" P row]
    by (simp add: simulation_step_def Let_def split: sum.splits)
qed (auto simp: simulation_step_def Let_def split: sum.splits)

text \<open>A signal of 0.5, a signal of -2, and a row with signal 0 while a position is live.\<close>

theorem signal_dispatch_by_sign_witness:
  "(0::real) < signal (bar 1 1 (1/2)) \<and>
   simulation_step (params_of (1/2) 0) (initial_engine (params_of (1/2) 0)) (bar 1 1 (1/2)) =
   simulation_step (params_of (1/2) 0) (initial_engine (params_of (1/2) 0)) (bar 1 1 1) \<and>
   signal (bar 2 2 (- 2)) < 0 \<and>
   simulation_step (params_of (1/2) 0) state_long (bar 2 2 (- 2)) =
   simulation_step (params_of (1/2) 0) state_long (bar 2 2 (- 1)) \<and>
   signal (bar 3 4 0) = 0 \<and>
   simulation_step (params_of (1/2) 0) state_late_entered (bar 3 4 0) = Inr state_late_held \<and>
   capital state_late_held = capital state_late_entered \<and>
   trades state_late_held = trades state_late_entered \<and>
   current_position state_late_held = current_position state_late_entered"
  using signal_dispatch_by_sign [of "bar 1 1 (1/2)" "params_of (1/2) 0"
      "initial_engine (params_of (1/2) 0)"]
    signal_dispatch_by_sign [of "bar 2 2 (- 2)" "params_of (1/2) 0" state_long]
    signal_dispatch_by_sign [of "bar 3 4 0" "params_of (1/2) 0" state_late_entered
      state_late_held]
    step_late_held
  by (simp add: bar_def)

text \<open>
  C4 as stated fails: a first row with signal 0.5 opens a position, and the capital goes
  from 1024 to 512.
\<close>

theorem fractional_signal_counterexample:
  "signal (bar 1 1 (1/2)) \<notin> {-1, 0, 1} \<and>
   current_position (initial_engine (params_of (1/2) 0)) = None \<and>
   simulation_step (params_of (1/2) 0) (initial_engine (params_of (1/2) 0)) (bar 1 1 (1/2)) =
     Inr state_long \<and>
   capital state_long \<noteq> capital (initial_engine (params_of (1/2) 0)) \<and>
   current_position state_long \<noteq> None"
  by (simp add: engine_defs state_long_def)

lemma sealed_not_open: "sealed P t \<Longrightarrow> status t \<noteq> ''open''"
  by (simp add: sealed_def)

lemma ledger_ok_open_positions: "ledger_ok P st \<Longrightarrow> open_positions st \<le> 1"
proof -
  assume "ledger_ok P st"
  then have "\<forall>t\<in>set (trades st). status t \<noteq> ''open''"
    by (auto simp: ledger_ok_def list_all_iff dest: sealed_not_open)
  then have "filter (\<lambda>t. status t = ''open'') (trades st) = []"
    by (simp add: filter_empty_conv)
  then show ?thesis
    by (simp add: open_positions_def split: option.splits)
qed

text \<open>A loop that returns has returned on every prefix of the rows.\<close>

lemma bar_loop_take:
  assumes "bar_loop P data = Inr st"
  shows "\<exists>s. bar_loop P (take n data) = Inr s"
proof -
  have "bar_loop P (take n data @ drop n data) = Inr st"
    using assms by simp
  then show ?thesis
    unfolding bar_loop_def simulate_rows_append by (auto split: sum.splits)
qed

text \<open>
  C6. After every prefix of the rows on which the loop returns, the engine holds at most
  one open position; and a loop that returns on all the rows has returned on each
  prefix. A buy signal while a long position is live returns the state as it is, and so
  does a sell signal while no position is live.
\<close>

theorem single_position:
  "(bar_loop P (take n data) = Inr s \<longrightarrow> open_positions s \<le> 1) \<and>
   (bar_loop P data = Inr st \<longrightarrow>
      (\<exists>s'. bar_loop P (take n data) = Inr s' \<and> open_positions s' \<le> 1)) \<and>
   (0 < sig \<and> current_position e = Some pos \<and> side pos = ''long''
      \<longrightarrow> process_signal P sig row e = Inr e) \<and>
   (sig < 0 \<and> current_position e = None \<longrightarrow> process_signal P sig row e = Inr e)"
proof (intro conjI impI)
  assume "bar_loop P (take n data) = Inr s"
  then show "open_positions s \<le> 1"
    by (intro ledger_ok_open_positions ledger_ok_bar_loop)
next
  assume "bar_loop P data = Inr st"
  from bar_loop_take [OF this, of n] obtain s' where s': "bar_loop P (take n data) = Inr s'"
    by blast
  then have "open_positions s' \<le> 1"
    by (intro ledger_ok_open_positions ledger_ok_bar_loop)
  with s' show "\<exists>s'. bar_loop P (take n data) = Inr s' \<and> open_positions s' \<le> 1"
    by blast
qed (auto simp: process_signal_def)

text \<open>Prefixes that end with a live position, a buy while long, and a sell while flat.\<close>

theorem single_position_witness:
  "bar_loop (params_of (1/2) 0) (take 1 rows_buy_only) = Inr state_long \<and>
   open_positions state_long = 1 \<and>
   bar_loop (params_of (1/2) 0) rows_buy_late = Inr state_late_held \<and>
   bar_loop (params_of (1/2) 0) (take 2 rows_buy_late) = Inr state_late_entered \<and>
   open_positions state_late_entered = 1 \<and>
   (0::real) < 1 \<and> current_position state_long \<noteq> None \<and>
   side (the (current_position state_long)) = ''long'' \<and>
   process_signal (params_of (1/2) 0) 1 (bar 2 2 1) state_long = Inr state_long \<and>
   (-1::real) < 0 \<and> current_position (initial_engine (params_of (1/2) 0)) = None \<and>
   process_signal (params_of (1/2) 0) (-1) (bar 1 1 (-1)) (initial_engine (params_of (1/2) 0))
     = Inr (initial_engine (params_of (1/2) 0))"
proof -
  have a: "bar_loop (params_of (1/2) 0) (take 1 rows_buy_only) = Inr state_long"
    using bar_loop_buy_only by (simp add: rows_buy_only_def)
  have b: "bar_loop (params_of (1/2) 0) (take 2 rows_buy_late) = Inr state_late_entered"
    using bar_loop_late_entered by (simp add: rows_buy_late_def)
  have c: "current_position state_long \<noteq> None"
    "side (the (current_position state_long)) = ''long''"
    "current_position (initial_engine (params_of (1/2) 0)) = None"
    by (simp_all add: state_long_def initial_engine_def)
  have d: "open_positions state_long = 1" "open_positions state_late_entered = 1"
    by (simp_all add: state_long_def state_late_entered_def open_positions_def)
  from single_position [of "params_of (1/2) 0" 1 rows_buy_only state_long state_long 1
      state_long "the (current_position state_long)" "bar 2 2 1"] c
  have e: "process_signal (params_of (1/2) 0) 1 (bar 2 2 1) state_long = Inr state_long"
    by simp
  from single_position [of "params_of (1/2) 0" 2 rows_buy_late state_late_entered
      state_late_held "-1" "initial_engine (params_of (1/2) 0)" undefined "bar 1 1 (-1)"] c
  have f: "process_signal (params_of (1/2) 0) (-1) (bar 1 1 (-1))
      (initial_engine (params_of (1/2) 0)) = Inr (initial_engine (params_of (1/2) 0))"
    by simp
  from a b c d e f bar_loop_late_held show ?thesis
    by simp
qed

subsection \<open>What the run accepts (C5)\<close>

lemma run_Inr:
  assumes "run srt P rows = Inr res"
  shows "\<exists>st. validate_params P = Inr P \<and>
           run_backtest_simulation P (srt rows) = Inr st \<and>
           calculate_performance_metrics P st (srt rows) = Inr res"
proof -
  from assms obtain P' where v: "validate_params P = Inr P'"
    by (cases "validate_params P") (simp_all add: run_def)
  then have "P' = P"
    by (auto simp: validate_params_def split: if_splits)
  with v assms show ?thesis
    by (auto simp: run_def Let_def merge_signals_and_prices_def split: sum.splits)
qed

lemma sorts_by_timestamp_sort:
  assumes "sorts_by_timestamp srt"
  shows "map timestamp (srt rows) = sort (map timestamp rows)" and "length (srt rows) = length rows"
proof -
  from assms have m: "mset (srt rows) = mset rows" and s: "sorted (map timestamp (srt rows))"
    by (simp_all add: sorts_by_timestamp_def)
  from m have "mset (map timestamp (srt rows)) = mset (map timestamp rows)"
    by (metis mset_map)
  with s show "map timestamp (srt rows) = sort (map timestamp rows)"
    by (metis properties_for_sort)
  from m show "length (srt rows) = length rows"
    by (metis size_mset)
qed

text \<open>Rows of distinct timestamps have one order that is ascending by timestamp.\<close>

lemma sorts_by_timestamp_permutation:
  assumes srt: "sorts_by_timestamp srt"
    and perm: "mset rows = mset rows'"
    and dist: "distinct (map timestamp rows)"
  shows "srt rows = srt rows'"
proof -
  let ?xs = "srt rows" and ?ys = "srt rows'"
  have mx: "mset ?xs = mset rows" and my: "mset ?ys = mset rows"
    and sx: "sorted (map timestamp ?xs)" and sy: "sorted (map timestamp ?ys)"
    using srt perm by (simp_all add: sorts_by_timestamp_def)
  have tx: "mset (map timestamp ?xs) = mset (map timestamp rows)"
    and ty: "mset (map timestamp ?ys) = mset (map timestamp rows)"
    using mx my by (metis mset_map)+
  have dx: "distinct (map timestamp ?xs)" and dy: "distinct (map timestamp ?ys)"
    using dist tx ty by (metis mset_eq_imp_distinct_iff)+
  have "set (map timestamp ?xs) = set (map timestamp ?ys)"
    using tx ty by (metis set_mset_mset)
  then have eq: "map timestamp ?xs = map timestamp ?ys"
    using sx sy dx dy by (intro sorted_distinct_set_unique)
  have sets: "set ?xs = set ?ys"
    using mx my by (metis set_mset_mset)
  have "inj_on timestamp (set ?xs)"
    using dx by (simp add: distinct_map)
  then have "inj_on timestamp (set ?xs \<union> set ?ys)"
    using sets by simp
  then show ?thesis
    using eq by (simp add: inj_on_map_eq_map)
qed

text \<open>
  C5, as the code has it, for every function \<open>srt\<close> that sorts by timestamp as
  \<^verbatim>\<open>sort_values\<close> does. With valid parameters the run of an empty series ends in a
  RuntimeError, with no result. The given order is not read: two series of the same
  rows, of distinct timestamps, have the same outcome, whatever their order. When a run
  returns a result, the series was not empty, the loop has taken the sorted rows, and
  the equity curve has one point per row, in ascending order of timestamp.
\<close>

theorem run_sorts_rows:
  assumes srt: "sorts_by_timestamp srt"
  shows "(validate_params P = Inr P \<longrightarrow>
            run srt P [] = Inl (RuntimeError (ValueError ''No equity curve data available''))) \<and>
         (mset rows = mset rows' \<and> distinct (map timestamp rows) \<longrightarrow>
            run srt P rows = run srt P rows') \<and>
         (run srt P rows = Inr res \<longrightarrow>
            rows \<noteq> [] \<and>
            (\<exists>s. bar_loop P (srt rows) = Inr s \<and> res_equity_curve res = equity_curve s) \<and>
            length (res_equity_curve res) = length rows \<and>
            map ep_timestamp (res_equity_curve res) = sort (map timestamp rows))"
proof (intro conjI impI)
  assume "validate_params P = Inr P"
  moreover have "srt [] = []"
    using sorts_by_timestamp_sort(2) [OF srt, of "[]"] by simp
  ultimately show "run srt P [] = Inl (RuntimeError (ValueError ''No equity curve data available''))"
    by (simp add: run_def merge_signals_and_prices_def run_backtest_simulation_def
        calculate_performance_metrics_def initial_engine_def)
next
  assume "mset rows = mset rows' \<and> distinct (map timestamp rows)"
  then have "srt rows = srt rows'"
    using sorts_by_timestamp_permutation [OF srt] by blast
  then show "run srt P rows = run srt P rows'"
    by (simp add: run_def merge_signals_and_prices_def cong: sum.case_cong)
next
  assume r: "run srt P rows = Inr res"
  from run_Inr [OF r] obtain st
    where sim: "run_backtest_simulation P (srt rows) = Inr st"
      and m: "calculate_performance_metrics P st (srt rows) = Inr res"
    by blast
  from equity_curve_simulation [OF sim] obtain s where s: "bar_loop P (srt rows) = Inr s"
    and eq: "equity_curve st = equity_curve s"
    by blast
  from final_capital_metrics [OF m] have ne: "equity_curve st \<noteq> []"
    and c: "res_equity_curve res = equity_curve st"
    by simp_all
  from length_equity_curve [OF s] have len: "length (res_equity_curve res) = length rows"
    by (simp add: c eq sorts_by_timestamp_sort(2) [OF srt])
  show "length (res_equity_curve res) = length rows"
    by (rule len)
  from len ne c show "rows \<noteq> []"
    by auto
  show "\<exists>s. bar_loop P (srt rows) = Inr s \<and> res_equity_curve res = equity_curve s"
    using s c eq by auto
  show "map ep_timestamp (res_equity_curve res) = sort (map timestamp rows)"
    using timestamps_equity_curve [OF s] by (simp add: c eq sorts_by_timestamp_sort(1) [OF srt])
qed

text \<open>
  With a stable sort in the place of \<open>srt\<close>: two rows given in descending order run as
  the same rows in ascending order.
\<close>

theorem run_sorts_rows_witness:
  "sorts_by_timestamp (sort_key timestamp) \<and>
   validate_params (params_of 0 0) = Inr (params_of 0 0) \<and>
   run (sort_key timestamp) (params_of 0 0) [] =
     Inl (RuntimeError (ValueError ''No equity curve data available'')) \<and>
   mset rows_unsorted = mset rows_win \<and> distinct (map timestamp rows_unsorted) \<and>
   run (sort_key timestamp) (params_of 0 0) rows_unsorted =
     run (sort_key timestamp) (params_of 0 0) rows_win \<and>
   run (sort_key timestamp) (params_of 0 0) rows_unsorted = Inr results_win \<and>
   rows_unsorted \<noteq> [] \<and>
   bar_loop (params_of 0 0) (sort_key timestamp rows_unsorted) = Inr state_win \<and>
   res_equity_curve results_win = equity_curve state_win \<and>
   length (res_equity_curve results_win) = length rows_unsorted \<and>
   map ep_timestamp (res_equity_curve results_win) = [1, 2]"
proof -
  have h: "validate_params (params_of 0 0) = Inr (params_of 0 0)"
    by (simp add: validate_params_def params_of_def)
  have s: "mset rows_unsorted = mset rows_win" "distinct (map timestamp rows_unsorted)"
    by (simp_all add: rows_unsorted_def rows_win_def bar_def)
  have l: "bar_loop (params_of 0 0) (sort_key timestamp rows_unsorted) = Inr state_win"
    by (simp add: engine_defs rows_unsorted_def state_win_def)
  from run_sorts_rows [OF sorts_by_timestamp_sort_key, of "params_of 0 0" rows_unsorted rows_win
      results_win] h s run_unsorted
  have "run (sort_key timestamp) (params_of 0 0) [] =
      Inl (RuntimeError (ValueError ''No equity curve data available''))"
    and "run (sort_key timestamp) (params_of 0 0) rows_unsorted =
      run (sort_key timestamp) (params_of 0 0) rows_win"
    and "rows_unsorted \<noteq> []"
    and "length (res_equity_curve results_win) = length rows_unsorted"
    and "map ep_timestamp (res_equity_curve results_win) = sort (map timestamp rows_unsorted)"
    by simp_all
  moreover have "sort (map timestamp rows_unsorted) = [1, 2]"
    by (simp add: rows_unsorted_def bar_def)
  ultimately show ?thesis
    using sorts_by_timestamp_sort_key h s l run_unsorted by (simp add: results_win_def)
qed

text \<open>
  C5 as stated fails: two rows given with the later timestamp first are not rejected;
  the run returns a result whose equity curve is in ascending order of timestamp, and
  whose trade is closed at the row that was given first.
\<close>

theorem unsorted_rows_counterexample:
  "\<not> sorted (map timestamp rows_unsorted) \<and>
   map timestamp rows_unsorted = [2, 1] \<and>
   map_sum id (map ep_timestamp \<circ> res_equity_curve)
     (run (sort_key timestamp) (params_of 0 0) rows_unsorted) = Inr [1, 2] \<and>
   map_sum id (map exit_time \<circ> res_trades)
     (run (sort_key timestamp) (params_of 0 0) rows_unsorted) = Inr [Some 2]"
  using run_unsorted by (simp add: rows_unsorted_def results_win_def state_win_def bar_def)

subsection \<open>Trade statistics (C7, C10)\<close>

lemma sum_list_all_zero:
  fixes f :: "'a \<Rightarrow> real"
  shows "\<forall>x\<in>set xs. f x = 0 \<Longrightarrow> sum_list (map f xs) = 0"
  by (induction xs) simp_all

text \<open>The trade statistics of a result that the metrics return.\<close>

lemma trade_statistics:
  assumes "calculate_performance_metrics P st data = Inr res"
  shows "profit_factor res =
           (if trades st \<noteq> [] then
              (let total_wins = (if filter (\<lambda>t. float_of (pnl t) > 0) (trades st) \<noteq> []
                     then sum_list (map (\<lambda>t. float_of (pnl t))
                            (filter (\<lambda>t. float_of (pnl t) > 0) (trades st)))
                     else 0);
                   total_losses = (if filter (\<lambda>t. float_of (pnl t) \<le> 0) (trades st) \<noteq> []
                     then \<bar>sum_list (map (\<lambda>t. float_of (pnl t))
                            (filter (\<lambda>t. float_of (pnl t) \<le> 0) (trades st)))\<bar>
                     else 1)
               in if total_losses > 0 then total_wins / total_losses else 0)
            else 0)"
    and "win_rate res =
           (if trades st \<noteq> []
            then real (length (filter (\<lambda>t. float_of (pnl t) > 0) (trades st)))
                 / real (length (trades st))
            else 0)"
  using assms
  by (auto simp: calculate_performance_metrics_def Let_def split: if_splits sum.splits pynum.splits)

text \<open>
  C7, as the code has it. When the metrics return: with an empty ledger profit_factor
  is 0; with at least one trade of pnl > 0 and no trade of pnl <= 0, the denominator is
  1 and profit_factor is the sum of the winners' pnl. Nothing bounds that sum.
\<close>

theorem profit_factor_without_losers:
  assumes "calculate_performance_metrics P st data = Inr res"
  shows "(trades st = [] \<longrightarrow> profit_factor res = 0) \<and>
         ((\<exists>t\<in>set (trades st). float_of (pnl t) > 0) \<and>
          (\<forall>t\<in>set (trades st). \<not> float_of (pnl t) \<le> 0) \<longrightarrow>
            profit_factor res =
              sum_list (map (\<lambda>t. float_of (pnl t))
                (filter (\<lambda>t. float_of (pnl t) > 0) (trades st))))"
proof (intro conjI impI)
  assume "trades st = []"
  then show "profit_factor res = 0"
    by (simp add: trade_statistics(1) [OF assms])
next
  assume a: "(\<exists>t\<in>set (trades st). float_of (pnl t) > 0) \<and>
    (\<forall>t\<in>set (trades st). \<not> float_of (pnl t) \<le> 0)"
  then have nolose: "filter (\<lambda>t. float_of (pnl t) \<le> 0) (trades st) = []"
    by (simp add: filter_empty_conv)
  from a have win: "filter (\<lambda>t. float_of (pnl t) > 0) (trades st) \<noteq> []"
    by (simp add: filter_empty_conv)
  from a have "trades st \<noteq> []"
    by auto
  then show "profit_factor res =
      sum_list (map (\<lambda>t. float_of (pnl t)) (filter (\<lambda>t. float_of (pnl t) > 0) (trades st)))"
    using nolose win by (simp add: trade_statistics(1) [OF assms])
qed

text \<open>One winning trade of pnl 1024 and no loser; and a run without trades.\<close>

theorem profit_factor_without_losers_witness:
  "run_backtest_simulation (params_of 0 0) rows_win = Inr state_win \<and>
   calculate_performance_metrics (params_of 0 0) state_win rows_win = Inr results_win \<and>
   map pnl (trades state_win) = [Some 1024] \<and>
   profit_factor results_win = 1024 \<and>
   run_backtest_simulation (params_of 0 0) rows_idle = Inr state_idle \<and>
   calculate_performance_metrics (params_of 0 0) state_idle rows_idle = Inr results_idle \<and>
   trades state_idle = [] \<and>
   profit_factor results_idle = 0"
  using profit_factor_without_losers [OF metrics_win] profit_factor_without_losers [OF metrics_idle]
    metrics_win metrics_idle simulation_win simulation_idle
  by (simp add: state_win_def state_idle_def float_of_def)

text \<open>Round trips that leave the capital as it was.\<close>

lemma drawdown_returns:
  assumes "0 < e"
  shows "\<exists>dd. calculate_current_drawdown st e = Inr dd"
proof -
  have "e \<le> Max (set (map equity (equity_curve st) @ [e]))"
    by (intro Max_ge) auto
  with assms show ?thesis
    by (auto simp: calculate_current_drawdown_def Let_def)
qed

lemma round_trip:
  assumes fees: "commission P = 1 / 2" "slippage P = 0" "position_size P = 1"
    and flat: "current_position s = None"
    and pos: "0 < capital s"
  shows "\<exists>s' t. simulate_rows P s [bar ts 1 1, bar ts' 4 (-1)] = Inr s' \<and>
           current_position s' = None \<and> capital s' = capital s \<and>
           trades s' = trades s @ [t] \<and> pnl t = Some (capital s / 2) \<and>
           return_pct t = Some 1 \<and>
           equity_curve s' \<noteq> [] \<and> equity (last (equity_curve s')) = 2 * capital s"
proof -
  obtain d1 where d1: "calculate_current_drawdown s (capital s) = Inr d1"
    using drawdown_returns [OF pos] by blast
  have "\<exists>s1 p. simulation_step P s (bar ts 1 1) = Inr s1 \<and> current_position s1 = Some p \<and>
          entry_price p = 1 \<and> quantity p = capital s / 2 \<and> side p = ''long'' \<and>
          capital s1 = capital s / 2 \<and> trades s1 = trades s"
    by (simp add: simulation_step_def process_signal_def enter_long_position_def
        calculate_current_equity_def bar_def Let_def d1 fees flat)
  then obtain s1 p where s1: "simulation_step P s (bar ts 1 1) = Inr s1"
    and p: "current_position s1 = Some p" "entry_price p = 1" "quantity p = capital s / 2"
      "side p = ''long''"
    and c1: "capital s1 = capital s / 2" and t1: "trades s1 = trades s"
    by blast
  have eq: "calculate_current_equity s1 (bar ts' 4 (-1)) = 2 * capital s"
    by (simp add: calculate_current_equity_def bar_def p c1)
  obtain d2 where d2: "calculate_current_drawdown s1 (2 * capital s) = Inr d2"
    using drawdown_returns [of "2 * capital s" s1] pos by auto
  have "\<exists>s' t. simulation_step P s1 (bar ts' 4 (-1)) = Inr s' \<and>
          current_position s' = None \<and> capital s' = capital s \<and>
          trades s' = trades s @ [t] \<and> pnl t = Some (capital s / 2) \<and>
          return_pct t = Some 1 \<and>
          equity_curve s' \<noteq> [] \<and> equity (last (equity_curve s')) = 2 * capital s"
    using pos
    by (simp add: simulation_step_def process_signal_def close_position_def Let_def
        d2 eq fees p c1 t1)
       (simp add: bar_def)
  then show ?thesis
    using s1 by auto
qed

lemma round_trips_Suc:
  "round_trips (Suc n) = round_trips n @ [bar (2 * int n + 1) 1 1, bar (2 * int n + 2) 4 (-1)]"
  by (simp add: round_trips_def)

lemma round_trips_loop:
  assumes fees: "commission P = 1 / 2" "slippage P = 0" "position_size P = 1"
    and pos: "0 < initial_capital P"
  shows "\<exists>st. bar_loop P (round_trips n) = Inr st \<and> current_position st = None \<and>
           capital st = initial_capital P \<and>
           map pnl (trades st) = replicate n (Some (initial_capital P / 2)) \<and>
           map return_pct (trades st) = replicate n (Some 1) \<and>
           (0 < n \<longrightarrow> equity_curve st \<noteq> [] \<and>
              equity (last (equity_curve st)) = 2 * initial_capital P)"
proof (induction n)
  case 0
  show ?case
    by (simp add: round_trips_def bar_loop_def initial_engine_def)
next
  case (Suc n)
  then obtain st where st: "bar_loop P (round_trips n) = Inr st" "current_position st = None"
    "capital st = initial_capital P"
    "map pnl (trades st) = replicate n (Some (initial_capital P / 2))"
    "map return_pct (trades st) = replicate n (Some 1)"
    by blast
  from round_trip [OF fees st(2), of "2 * int n + 1" "2 * int n + 2"] pos st(3)
  obtain s' t where s': "simulate_rows P st [bar (2 * int n + 1) 1 1, bar (2 * int n + 2) 4 (-1)]
      = Inr s'"
    "current_position s' = None" "capital s' = capital st" "trades s' = trades st @ [t]"
    "pnl t = Some (capital st / 2)" "return_pct t = Some 1"
    "equity_curve s' \<noteq> []" "equity (last (equity_curve s')) = 2 * capital st"
    by auto
  have "bar_loop P (round_trips (Suc n)) = Inr s'"
    using st(1) s'(1) by (simp add: round_trips_Suc bar_loop_def simulate_rows_append)
  then show ?case
    using s' st by (simp add: replicate_append_same)
qed

lemma map_replicate_member:
  assumes "map f xs = replicate n y" and "x \<in> set xs"
  shows "f x = y"
proof -
  have "f x \<in> set (map f xs)"
    using assms(2) by simp
  then show ?thesis
    unfolding assms(1) by simp
qed

lemma rows_huge_round_trips: "rows_huge = round_trips 8"
  by (simp add: rows_huge_def eval_nat_numeral round_trips_Suc round_trips_def)

lemma run_huge:
  "\<exists>res. run (sort_key timestamp) params_huge rows_huge = Inr res \<and>
     map pnl (res_trades res) = replicate 8 (Some (2 ^ 1021)) \<and>
     profit_factor res = 2 ^ 1024"
proof -
  let ?P = params_huge
  have fees: "commission ?P = 1 / 2" "slippage ?P = 0" "position_size ?P = 1"
    and cap: "initial_capital ?P = 2 ^ 1022"
    by (simp_all add: params_huge_def)
  have half: "initial_capital ?P / 2 = 2 ^ 1021"
    unfolding cap by simp
  from round_trips_loop [OF fees, of 8] obtain st where
    loop: "bar_loop ?P rows_huge = Inr st" and flat: "current_position st = None"
    and pnls: "map pnl (trades st) = replicate 8 (Some (2 ^ 1021))"
    and rets: "map return_pct (trades st) = replicate 8 (Some 1)"
    and curve: "equity_curve st \<noteq> []" "equity (last (equity_curve st)) = 2 * 2 ^ 1022"
    unfolding half rows_huge_round_trips cap by auto
  have sim: "run_backtest_simulation ?P rows_huge = Inr st"
    using loop flat by (simp add: run_backtest_simulation_def)
  have pnl: "pnl t = Some (2 ^ 1021)" if "t \<in> set (trades st)" for t
    using map_replicate_member [OF pnls that] .
  have ret: "return_pct t = Some 1" if "t \<in> set (trades st)" for t
    using map_replicate_member [OF rets that] .
  have len: "length (trades st) = 8"
    using arg_cong [OF pnls, of length] by simp
  have no_none: "\<not> list_ex (\<lambda>t. pnl t = None \<or> return_pct t = None) (trades st)"
    using pnl ret by (auto simp: list_ex_iff)
  have days: "length rows_huge = 16"
    by (simp add: rows_huge_def)
  have pow: "float_pow 2 (365 / 16) = Inr (PyFloat (2 powr (365 / 16)))"
    by (rule float_pow_two) simp_all
  obtain res where m: "calculate_performance_metrics ?P st rows_huge = Inr res"
    and rt: "res_trades res = trades st"
    using curve no_none pow
    by (simp add: calculate_performance_metrics_def Let_def cap days)
  have srt: "sort_key timestamp rows_huge = rows_huge"
    by (simp add: rows_huge_def bar_def)
  have valid: "validate_params ?P = Inr ?P"
    by (simp add: validate_params_def params_huge_def)
  have r: "run (sort_key timestamp) ?P rows_huge = Inr res"
    using sim m by (simp add: run_def valid merge_signals_and_prices_def srt)
  have winners: "filter (\<lambda>t. float_of (pnl t) > 0) (trades st) = trades st"
    using pnl by (auto simp: float_of_def intro!: filter_True)
  have losers: "filter (\<lambda>t. float_of (pnl t) \<le> 0) (trades st) = []"
    using pnl by (auto simp: float_of_def filter_empty_conv)
  have ne: "trades st \<noteq> []"
    using len by auto
  have "map (\<lambda>t. float_of (pnl t)) (trades st) = map float_of (map pnl (trades st))"
    by simp
  also have "\<dots> = replicate 8 (2 ^ 1021)"
    unfolding pnls by (simp add: float_of_def)
  finally have "sum_list (map (\<lambda>t. float_of (pnl t)) (trades st)) = 8 * 2 ^ 1021"
    by (simp add: sum_list_replicate)
  then have "profit_factor res = 2 ^ 1024"
    using trade_statistics(1) [OF m] winners losers ne by (simp add: Let_def)
  then show ?thesis
    using r rt pnls by simp
qed

text \<open>
  C7 as stated fails on the finite value: eight winning trades of pnl \<open>2 ^ 1021\<close> each and
  no loser give a profit_factor of \<open>2 ^ 1024\<close>, which is beyond the largest double. No
  operation before that sum leaves the doubles, and the sum of the floats is inf.
\<close>

theorem profit_factor_overflow_counterexample:
  "validate_params params_huge = Inr params_huge \<and>
   map_sum id (map pnl \<circ> res_trades) (run (sort_key timestamp) params_huge rows_huge) =
     Inr (replicate 8 (Some (2 ^ 1021))) \<and>
   map_sum id profit_factor (run (sort_key timestamp) params_huge rows_huge) = Inr (2 ^ 1024) \<and>
   max_double < 2 ^ 1024"
  using run_huge by (auto simp: max_double_def validate_params_def params_huge_def)

text \<open>
  C10. When the metrics return, a trade with pnl exactly 0 is on the losing side: it is
  not counted in the numerator of win_rate and the list of losers is not empty. When
  every trade that is not a winner has pnl exactly 0 and there is such a trade, the
  losers' sum is 0 and profit_factor is 0, whatever the winners are.
\<close>

theorem zero_pnl_counts_as_loss:
  assumes m: "calculate_performance_metrics P st data = Inr res"
    and nonneg: "\<forall>t\<in>set (trades st). \<not> float_of (pnl t) > 0 \<longrightarrow> float_of (pnl t) = 0"
    and zero: "\<exists>t\<in>set (trades st). float_of (pnl t) = 0"
  shows "filter (\<lambda>t. float_of (pnl t) \<le> 0) (trades st) \<noteq> [] \<and>
         sum_list (map (\<lambda>t. float_of (pnl t))
           (filter (\<lambda>t. float_of (pnl t) \<le> 0) (trades st))) = 0 \<and>
         win_rate res =
           real (length (filter (\<lambda>t. float_of (pnl t) > 0) (trades st)))
             / real (length (trades st)) \<and>
         profit_factor res = 0"
proof -
  have lose: "filter (\<lambda>t. float_of (pnl t) \<le> 0) (trades st) \<noteq> []"
    using zero by (force simp: filter_empty_conv)
  have "\<forall>t\<in>set (filter (\<lambda>t. float_of (pnl t) \<le> 0) (trades st)). float_of (pnl t) = 0"
    using nonneg by auto
  then have s0: "sum_list (map (\<lambda>t. float_of (pnl t))
      (filter (\<lambda>t. float_of (pnl t) \<le> 0) (trades st))) = 0"
    by (rule sum_list_all_zero)
  have ne: "trades st \<noteq> []"
    using zero by auto
  from lose s0 ne show ?thesis
    by (simp add: trade_statistics [OF m])
qed

text \<open>A winner of pnl 1024 and a trade of pnl 0: win_rate is 1/2 and profit_factor is 0.\<close>

theorem zero_pnl_counts_as_loss_witness:
  "run_backtest_simulation (params_of 0 0) rows_win_then_even = Inr state_win_then_even \<and>
   calculate_performance_metrics (params_of 0 0) state_win_then_even rows_win_then_even
     = Inr results_win_then_even \<and>
   map pnl (trades state_win_then_even) = [Some 1024, Some 0] \<and>
   length (filter (\<lambda>t. float_of (pnl t) \<le> 0) (trades state_win_then_even)) = 1 \<and>
   win_rate results_win_then_even = 1 / 2 \<and>
   profit_factor results_win_then_even = 0"
proof -
  have h3: "\<forall>t\<in>set (trades state_win_then_even).
      \<not> float_of (pnl t) > 0 \<longrightarrow> float_of (pnl t) = 0"
    by (simp add: state_win_then_even_def float_of_def)
  have h4: "\<exists>t\<in>set (trades state_win_then_even). float_of (pnl t) = 0"
    by (simp add: state_win_then_even_def float_of_def)
  from zero_pnl_counts_as_loss [OF metrics_win_then_even h3 h4] metrics_win_then_even
    simulation_win_then_even
  show ?thesis
    by (simp add: state_win_then_even_def float_of_def)
qed

subsection \<open>The drawdown (C8)\<close>

lemma causal_drawdown_append:
  "i < length es \<Longrightarrow> causal_drawdown (es @ [e]) i = causal_drawdown es i"
  by (simp add: causal_drawdown_def running_max_def nth_append)

lemma causal_drawdown_last:
  "causal_drawdown (es @ [e]) (length es) = (Max (set (es @ [e])) - e) / Max (set (es @ [e]))"
  by (simp add: causal_drawdown_def running_max_def)

lemma drawdowns_ok_snoc:
  assumes "drawdowns_ok curve"
    and "drawdown pt =
      (if curve = [] then 0
       else (Max (set (map equity curve @ [equity pt])) - equity pt)
            / Max (set (map equity curve @ [equity pt])))"
  shows "drawdowns_ok (curve @ [pt])"
proof -
  have old: "map (causal_drawdown (map equity curve @ [equity pt])) [0..<length curve]
      = map (causal_drawdown (map equity curve)) [0..<length curve]"
    by (rule map_cong) (simp_all add: causal_drawdown_append)
  have new: "causal_drawdown (map equity curve @ [equity pt]) (length curve) = drawdown pt"
    using causal_drawdown_last [of "map equity curve" "equity pt"] assms(2)
    by (cases "curve = []") simp_all
  show ?thesis
    using assms(1) old new by (simp add: drawdowns_ok_def)
qed

lemma calculate_current_drawdown_Inr:
  "calculate_current_drawdown st e = Inr dd \<Longrightarrow>
   dd = (if equity_curve st = [] then 0
         else (Max (set (map equity (equity_curve st) @ [e])) - e)
              / Max (set (map equity (equity_curve st) @ [e])))"
  by (auto simp: calculate_current_drawdown_def Let_def split: if_splits)

lemma drawdowns_ok_step:
  assumes "drawdowns_ok (equity_curve st)" and "simulation_step P st row = Inr st'"
  shows "drawdowns_ok (equity_curve st')"
proof -
  from simulation_step_equity_curve [OF assms(2)] obtain dd
    where dd: "calculate_current_drawdown st (calculate_current_equity st row) = Inr dd"
      and c: "equity_curve st' =
        equity_curve st @
          [\<lparr>ep_timestamp = timestamp row, equity = calculate_current_equity st row,
            drawdown = dd,
            position = (case current_position st of None \<Rightarrow> ''flat'' | Some _ \<Rightarrow> ''long'')\<rparr>]"
    by blast
  show ?thesis
    unfolding c using assms(1) calculate_current_drawdown_Inr [OF dd]
    by (intro drawdowns_ok_snoc) simp_all
qed

lemma drawdowns_ok_bar_loop:
  assumes "bar_loop P data = Inr st"
  shows "drawdowns_ok (equity_curve st)"
proof (rule bar_loop_induct [where I = "\<lambda>s. drawdowns_ok (equity_curve s)", OF _ _ assms])
  show "drawdowns_ok (equity_curve (initial_engine P))"
    by (simp add: drawdowns_ok_def initial_engine_def)
qed (rule drawdowns_ok_step)

lemma map2_expanding:
  "map2 f es (map g [0..<length es]) = map (\<lambda>i. f (es ! i) (g i)) [0..<length es]"
  by (rule nth_equalityI) simp_all

lemma drawdown_series_min:
  "\<bar>Min (set (map2 (\<lambda>e m. (e - m) / m) es (expanding_max es)))\<bar> = spec_max_drawdown es"
proof -
  have "map2 (\<lambda>e m. (e - m) / m) es (expanding_max es)
      = map (\<lambda>i. (es ! i - running_max es i) / running_max es i) [0..<length es]"
    unfolding expanding_max_def running_max_def by (rule map2_expanding)
  then have "set (map2 (\<lambda>e m. (e - m) / m) es (expanding_max es))
      = (\<lambda>i. (es ! i - running_max es i) / running_max es i) ` {..<length es}"
    by (simp add: lessThan_atLeast0 del: set_upt flip: set_upt)
  then show ?thesis
    by (simp only: spec_max_drawdown_def)
qed

lemma max_drawdown_metrics:
  "calculate_performance_metrics P st data = Inr res \<Longrightarrow>
   max_drawdown res = spec_max_drawdown (map equity (equity_curve st))"
  by (auto simp: calculate_performance_metrics_def Let_def drawdown_series_min
      simp del: set_map split: if_splits sum.splits pynum.splits)

lemma spec_max_drawdown_curve:
  assumes ok: "drawdowns_ok curve" and ne: "curve \<noteq> []"
  shows "spec_max_drawdown (map equity curve) = Max (set (map drawdown curve))"
proof -
  define es where "es = map equity curve"
  define D where "D = set (map drawdown curve)"
  have len: "length es = length curve"
    by (simp add: es_def)
  have "map drawdown curve = map (causal_drawdown es) [0..<length es]"
    using ok by (simp add: drawdowns_ok_def es_def)
  then have "D = set (map (causal_drawdown es) [0..<length es])"
    by (simp only: D_def)
  then have D: "D = causal_drawdown es ` {..<length es}"
    by (simp add: lessThan_atLeast0)
  have fin: "finite D" and nonempty: "D \<noteq> {}"
    using ne by (simp_all add: D_def)
  have "(\<lambda>i. (es ! i - running_max es i) / running_max es i) = (\<lambda>i. - causal_drawdown es i)"
    by (rule ext) (metis causal_drawdown_def minus_diff_eq minus_divide_left)
  then have "(\<lambda>i. (es ! i - running_max es i) / running_max es i) ` {..<length es}
      = uminus ` D"
    by (simp only: D image_image)
  then have "spec_max_drawdown es = \<bar>Min (uminus ` D)\<bar>"
    by (simp only: spec_max_drawdown_def)
  also have "\<dots> = \<bar>- Max D\<bar>"
    using minus_Max_eq_Min [OF fin nonempty] by simp
  also have "\<dots> = \<bar>Max D\<bar>"
    by simp
  finally have eq: "spec_max_drawdown es = \<bar>Max D\<bar>" .
  have "causal_drawdown es 0 = 0"
    using ne by (cases curve) (simp_all add: causal_drawdown_def running_max_def es_def)
  moreover have "0 < length es"
    using ne by (simp add: len)
  ultimately have "0 \<in> D"
    unfolding D by (metis imageI lessThan_iff)
  then have "0 \<le> Max D"
    by (rule Max_ge [OF fin])
  with eq show ?thesis
    by (simp add: es_def D_def del: set_map)
qed

text \<open>
  C8. For every run that returns a result, max_drawdown is the specification's
  abs(min over i of (equity[i] - running_max(equity[0..i])) / running_max(equity[0..i]))
  over the equity curve, and it equals the maximum of the drawdown values stored in the
  points of that curve.
\<close>

theorem max_drawdown_matches_curve:
  assumes "run srt P rows = Inr res"
  shows "max_drawdown res = spec_max_drawdown (map equity (res_equity_curve res)) \<and>
         max_drawdown res = Max (set (map drawdown (res_equity_curve res)))"
proof -
  from run_Inr [OF assms] obtain st
    where sim: "run_backtest_simulation P (srt rows) = Inr st"
      and m: "calculate_performance_metrics P st (srt rows) = Inr res"
    by blast
  from final_capital_metrics [OF m]
  have ne: "equity_curve st \<noteq> []" and c: "res_equity_curve res = equity_curve st"
    by simp_all
  from equity_curve_simulation [OF sim] obtain s where "bar_loop P (srt rows) = Inr s"
    and "equity_curve st = equity_curve s"
    by blast
  then have ok: "drawdowns_ok (equity_curve st)"
    using drawdowns_ok_bar_loop by simp
  show ?thesis
    using max_drawdown_metrics [OF m] spec_max_drawdown_curve [OF ok ne] c by simp
qed

text \<open>A position held through a dip: the stored drawdowns are 0, 1/2, 0 and max_drawdown is 1/2.\<close>

theorem max_drawdown_matches_curve_witness:
  "run (sort_key timestamp) (params_of 0 0) rows_dip = Inr results_dip \<and>
   map drawdown (res_equity_curve results_dip) = [0, 1 / 2, 0] \<and>
   max_drawdown results_dip = 1 / 2 \<and>
   spec_max_drawdown (map equity (res_equity_curve results_dip)) = 1 / 2 \<and>
   Max (set (map drawdown (res_equity_curve results_dip))) = 1 / 2"
  using max_drawdown_matches_curve [OF run_dip] run_dip
  by (simp add: results_dip_def)

subsection \<open>The final capital and the last row (C9)\<close>

lemma live_through_last_row:
  assumes "ledger_ok P s0" and "current_position s0 = Some pos'"
    and "simulation_step P s0 r = Inr s1" and "current_position s1 = Some pos"
  shows "pos' = pos \<and> capital s1 = capital s0"
  using assms
  by (auto simp: simulation_step_def process_signal_def ledger_ok_def Let_def
      dest: close_position_Inr(2)
      split: sum.splits if_splits)

text \<open>
  C9, as the code has it. The point appended for a row holds the equity computed before
  that row's signal is processed. For a run that ends with a live position and whose
  metrics return, final_capital is the equity computed on the state before the last
  row; when the position was live before that row, it is that state's capital plus
  (close - entry_price) * quantity, with neither the slippage nor the commission of the
  exit. The close takes both: the pnl of the final trade is
  (close * (1 - slippage) - entry_price) * quantity less the exit commission
  close * (1 - slippage) * quantity * commission, and the engine's capital after the run
  is the capital after the loop plus that pnl. Whether final_capital and that capital
  differ is left to the numbers.
\<close>

theorem final_capital_lags_last_bar:
  assumes sim: "run_backtest_simulation P data = Inr st"
    and before: "bar_loop P (butlast data) = Inr s0"
    and loop: "bar_loop P data = Inr s1"
    and live: "current_position s1 = Some pos"
    and m: "calculate_performance_metrics P st data = Inr res"
  shows "(simulation_step P s row = Inr s' \<longrightarrow>
            equity (last (equity_curve s')) = calculate_current_equity s row \<and>
            butlast (equity_curve s') = equity_curve s) \<and>
         final_capital res = calculate_current_equity s0 (last data) \<and>
         (current_position s0 = Some pos' \<longrightarrow>
            pos' = pos \<and> capital s1 = capital s0 \<and>
            final_capital res =
              capital s0 + (close_price (last data) - entry_price pos) * quantity pos) \<and>
         pnl (last (trades st)) =
           Some ((close_price (last data) * (1 - slippage P) - entry_price pos) * quantity pos
                 - exit_commission_of P (last (trades st))) \<and>
         exit_commission_of P (last (trades st)) =
           close_price (last data) * (1 - slippage P) * quantity pos * commission P \<and>
         capital st = capital s1 + float_of (pnl (last (trades st)))"
proof -
  from live loop have ne: "data \<noteq> []"
    by (auto simp: initial_engine_def)
  then have data: "data = butlast data @ [last data]"
    by simp
  from loop before have step: "simulation_step P s0 (last data) = Inr s1"
    by (subst (asm) data) (simp add: bar_loop_snoc)
  have ok0: "ledger_ok P s0" and ok1: "ledger_ok P s1"
    using before loop by (auto intro: ledger_ok_bar_loop)
  from ok1 live have long: "side pos = ''long''"
    by (simp add: ledger_ok_def)
  from sim loop live have close: "close_position P (last data) ''end_of_period'' s1 = Inr st"
    by (auto simp: run_backtest_simulation_def split: list.splits)
  note c = close_long_position [OF live long close]
  from final_capital_metrics [OF m] close_position_Inr(1) [OF close]
  have "final_capital res = equity (last (equity_curve s1))"
    by simp
  with simulation_step_equity_curve [OF step]
  have fin: "final_capital res = calculate_current_equity s0 (last data)"
    by auto
  have held: "pos' = pos \<and> capital s1 = capital s0 \<and>
      final_capital res = capital s0 + (close_price (last data) - entry_price pos) * quantity pos"
    if p: "current_position s0 = Some pos'"
  proof -
    from live_through_last_row [OF ok0 p step live] have e: "pos' = pos" "capital s1 = capital s0"
      by simp_all
    with p long fin show ?thesis
      by (simp add: calculate_current_equity_def)
  qed
  have point: "equity (last (equity_curve s')) = calculate_current_equity s row \<and>
      butlast (equity_curve s') = equity_curve s"
    if "simulation_step P s row = Inr s'"
    using simulation_step_equity_curve [OF that] by auto
  have ec: "exit_commission_of P (last (trades st)) =
      close_price (last data) * (1 - slippage P) * quantity pos * commission P"
    using live long close
    by (auto simp: close_position_def exit_commission_of_def float_of_def Let_def split: if_splits)
  from c ec fin held point show ?thesis
    by simp
qed

text \<open>
  A buy on the second of three rows, at a commission of one half: final_capital is
  2048, the exit commission 1024, and the capital after the run 1024.
\<close>

theorem final_capital_lags_last_bar_witness:
  "run_backtest_simulation (params_of (1/2) 0) rows_buy_late = Inr state_buy_late \<and>
   bar_loop (params_of (1/2) 0) (butlast rows_buy_late) = Inr state_late_entered \<and>
   bar_loop (params_of (1/2) 0) rows_buy_late = Inr state_late_held \<and>
   current_position state_late_held = Some position_late \<and>
   current_position state_late_entered = Some position_late \<and>
   calculate_performance_metrics (params_of (1/2) 0) state_buy_late rows_buy_late
     = Inr results_buy_late \<and>
   simulation_step (params_of (1/2) 0) state_late_entered (bar 3 4 0) = Inr state_late_held \<and>
   equity (last (equity_curve state_late_held)) = 2048 \<and>
   final_capital results_buy_late = 512 + (4 - 1) * 512 \<and>
   pnl (last (trades state_buy_late)) = Some ((4 * (1 - 0) - 1) * 512 - 1024) \<and>
   exit_commission_of (params_of (1/2) 0) (last (trades state_buy_late)) = 1024 \<and>
   capital state_buy_late = 512 + 512"
  using final_capital_lags_last_bar [OF simulation_buy_late bar_loop_late_entered
      bar_loop_late_held _ metrics_buy_late,
      where pos = position_late and pos' = position_late
        and s = state_late_entered and row = "bar 3 4 0" and s' = state_late_held]
    simulation_buy_late bar_loop_late_entered bar_loop_late_held metrics_buy_late step_late_held
  by (simp add: state_late_held_def state_late_entered_def state_buy_late_def
      results_buy_late_def trade_buy_late_def position_late_def exit_commission_of_def
      float_of_def params_of_def)

text \<open>
  C9 as stated fails: with commission > 0 the two can agree. At a commission of 3/2 and
  a slippage of 3 the run of a buy and four rows without signal ends with a forced
  close whose exit commission is 384, and final_capital and the engine's capital are
  both -128.
\<close>

theorem final_capital_differs_counterexample:
  "validate_params (params_of (3/2) 3) = Inr (params_of (3/2) 3) \<and>
   0 < commission (params_of (3/2) 3) \<and>
   bar_loop (params_of (3/2) 3) rows_buy_hold = Inr state_hold_live \<and>
   current_position state_hold_live \<noteq> None \<and>
   run_backtest_simulation (params_of (3/2) 3) rows_buy_hold = Inr state_buy_hold \<and>
   exit_commission_of (params_of (3/2) 3) (last (trades state_buy_hold)) = 384 \<and>
   map_sum id final_capital (run (sort_key timestamp) (params_of (3/2) 3) rows_buy_hold) =
     Inr (- 128) \<and>
   capital state_buy_hold = - 128"
  using bar_loop_buy_hold simulation_buy_hold run_buy_hold
  by (simp add: validate_params_def params_of_def results_buy_hold_def state_buy_hold_def
      state_hold_live_def trade_buy_hold_def exit_commission_of_def float_of_def)

end
